theory Spec2Isabelle
  imports Complex_Main
begin

section \<open>Values thrown by the scripts\<close>

text \<open>
  The TypeScript sources signal failure by throwing. A thrown value is either an
  \<^verbatim>\<open>Error\<close> instance, which carries a message, or some other value (the handlers
  test \<^verbatim>\<open>error instanceof Error\<close>). The file-system error of \<^verbatim>\<open>fs.unlinkSync\<close>
  on a path that does not exist is kept apart, with the path it was called on.
\<close>

datatype exn =
    ENOENT string
  | JsError string
  | NonError

definition quote :: "string \<Rightarrow> string" where
  "quote s = [CHR 0x27] @ s @ [CHR 0x27]"

fun message :: "exn \<Rightarrow> string option" where
  "message (ENOENT p) = Some (''ENOENT: no such file or directory, unlink '' @ quote p)"
| "message (JsError m) = Some m"
| "message NonError = None"

text \<open>\<^verbatim>\<open>error instanceof Error ? error.message : dflt\<close>\<close>

definition message_or :: "string \<Rightarrow> exn \<Rightarrow> string" where
  "message_or dflt e = (case message e of Some m \<Rightarrow> m | None \<Rightarrow> dflt)"


section \<open>The backup directory\<close>

text \<open>
  The content of \<^verbatim>\<open>BACKUP_DIR\<close>: one entry per file, with its name, its modification
  time in milliseconds and its size in bytes. \<^verbatim>\<open>path.join(BACKUP_DIR, file)\<close> designates
  the entry called \<^verbatim>\<open>file\<close>, so a path is modelled by the name of the entry. The names of a
  directory are pairwise different (\<open>wf_dir\<close>).
\<close>

record dir_entry =
  name :: string
  time :: int
  size_bytes :: nat

type_synonym directory = "dir_entry list"

definition wf_dir :: "directory \<Rightarrow> bool" where
  "wf_dir fs = distinct (map name fs)"

definition existsSync :: "string \<Rightarrow> directory \<Rightarrow> bool" where
  "existsSync p fs = (p \<in> set (map name fs))"

text \<open>\<^verbatim>\<open>fs.unlinkSync(path)\<close>: removes the entry, throws when there is none.\<close>

definition unlinkSync :: "string \<Rightarrow> directory \<Rightarrow> exn + directory" where
  "unlinkSync p fs =
     (if existsSync p fs then Inr (filter (\<lambda>f. name f \<noteq> p) fs) else Inl (ENOENT p))"

text \<open>\<^verbatim>\<open>file.endsWith('.sql.gz')\<close>\<close>

definition endsWith :: "string \<Rightarrow> string \<Rightarrow> bool" where
  "endsWith s suf = (length suf \<le> length s \<and> drop (length s - length suf) s = suf)"

text \<open>\<^verbatim>\<open>Array.prototype.slice(start)\<close>, for an integral \<^verbatim>\<open>start\<close>: a negative start counts
  from the end of the array.\<close>

definition slice :: "int \<Rightarrow> 'a list \<Rightarrow> 'a list" where
  "slice start xs =
     (if start < 0 then drop (length xs - nat (- start)) xs else drop (nat start) xs)"


section \<open>The retention sweep: \<^verbatim>\<open>cleanOldBackups\<close>\<close>

text \<open>
  \<^verbatim>\<open>
  const files = fs.readdirSync(BACKUP_DIR)
    .filter(file => file.endsWith('.sql.gz'))
    .map(file => ({ name, path, time: statSync(...).mtime.getTime() }))
    .sort((a, b) => b.time - a.time);
  \<close>
  The sort is stable and descending in the modification time: \<open>sort_key\<close> on the negated
  time.
\<close>

definition backup_files :: "directory \<Rightarrow> dir_entry list" where
  "backup_files fs =
     sort_key (\<lambda>f. - time f) (filter (\<lambda>f. endsWith (name f) ''.sql.gz'') fs)"

text \<open>
  \<^verbatim>\<open>files.slice(MAX_BACKUPS).forEach(file => { fs.unlinkSync(file.path); ... })\<close>
  A throw leaves the loop; the files removed before it stay removed, so the directory is
  returned with the thrown value.
\<close>

fun remove_old :: "dir_entry list \<Rightarrow> directory \<Rightarrow> exn option \<times> directory" where
  "remove_old [] fs = (None, fs)"
| "remove_old (f # rest) fs =
     (case unlinkSync (name f) fs of
        Inl e \<Rightarrow> (Some e, fs)
      | Inr fs' \<Rightarrow> remove_old rest fs')"

text \<open>
  \<^verbatim>\<open>files.forEach(file => { if (now - file.time > retentionMs) { fs.unlinkSync(file.path); ... } })\<close>
  over the list read at the start of the sweep.
\<close>

fun remove_expired :: "int \<Rightarrow> int \<Rightarrow> dir_entry list \<Rightarrow> directory \<Rightarrow> exn option \<times> directory" where
  "remove_expired now retentionMs [] fs = (None, fs)"
| "remove_expired now retentionMs (f # rest) fs =
     (if now - time f > retentionMs then
        (case unlinkSync (name f) fs of
           Inl e \<Rightarrow> (Some e, fs)
         | Inr fs' \<Rightarrow> remove_expired now retentionMs rest fs')
      else remove_expired now retentionMs rest fs)"

text \<open>The configuration read from the environment: the integers that \<^verbatim>\<open>parseInt\<close> yields for
  \<^verbatim>\<open>MAX_BACKUPS\<close> and \<^verbatim>\<open>BACKUP_RETENTION_DAYS\<close> (5 and 7 when the variables are not set). A
  value that does not parse as a number is outside the model.\<close>

record config =
  MAX_BACKUPS :: int
  RETENTION_DAYS :: int

definition retentionMs :: "config \<Rightarrow> int" where
  "retentionMs cfg = RETENTION_DAYS cfg * 24 * 60 * 60 * 1000"

text \<open>\<open>now\<close> is the value of \<^verbatim>\<open>Date.now()\<close> read by the sweep.\<close>

definition cleanOldBackups :: "config \<Rightarrow> int \<Rightarrow> directory \<Rightarrow> exn option \<times> directory" where
  "cleanOldBackups cfg now fs =
     (let files = backup_files fs in
      case (if int (length files) > MAX_BACKUPS cfg
            then remove_old (slice (MAX_BACKUPS cfg) files) fs
            else (None, fs)) of
        (Some e, fs1) \<Rightarrow> (Some e, fs1)
      | (None, fs1) \<Rightarrow> remove_expired now (retentionMs cfg) files fs1)"

text \<open>What the claims speak about: the artifacts of a directory, and being expired.\<close>

definition artifacts :: "directory \<Rightarrow> dir_entry list" where
  "artifacts fs = filter (\<lambda>f. endsWith (name f) ''.sql.gz'') fs"

definition expired :: "config \<Rightarrow> int \<Rightarrow> dir_entry \<Rightarrow> bool" where
  "expired cfg now f = (now - time f > retentionMs cfg)"


section \<open>The monitor's state: \<^verbatim>\<open>SystemState\<close>\<close>

datatype health = Healthy | Warning | Error

record SystemState =
  status :: health
  lastCheck :: int
  tables :: "string \<rightharpoonup> nat"
  lastBackup :: "int option"
  warnings :: "string list"
  errors :: "string list"


section \<open>The audit table \<^verbatim>\<open>system_status\<close> and its trigger\<close>

datatype system_status_type = st_initialized | st_reset | st_backup | st_restore | st_error

text \<open>The JSON values that the scripts store in \<^verbatim>\<open>last_known_state\<close>.\<close>

datatype payload =
    Empty_object
  | State SystemState
  | Incident SystemState string
  | Backup_file string
  | Json string

text \<open>
  A row of the table. The rows are kept in the order of their insertion, which is the order
  of \<^verbatim>\<open>created_at\<close>; the generated \<^verbatim>\<open>id\<close> of a row is its position. A nullable column is an
  option. The column \<^verbatim>\<open>status\<close> is called \<open>row_status\<close> here, since \<open>status\<close> is the field
  of \<^verbatim>\<open>SystemState\<close>.
\<close>

record status_row =
  row_status :: system_status_type
  last_known_state :: payload
  last_reset_time :: "int option"
  last_backup_time :: "int option"
  last_restore_time :: "int option"
  error_count :: "int option"
  last_error :: "string option"

text \<open>The column defaults, for the columns an \<^verbatim>\<open>INSERT\<close> does not give.\<close>

definition default_row :: status_row where
  "default_row =
     \<lparr>row_status = st_initialized, last_known_state = Empty_object, last_reset_time = None,
      last_backup_time = None, last_restore_time = None, error_count = Some 0,
      last_error = None\<rparr>"

definition COALESCE :: "'a option \<Rightarrow> 'a \<Rightarrow> 'a" where
  "COALESCE v d = (case v of Some x \<Rightarrow> x | None \<Rightarrow> d)"

text \<open>
  \<^verbatim>\<open>
  IF NEW.status = 'error' THEN
      NEW.error_count := COALESCE(OLD.error_count, 0) + 1;
  END IF;
  RETURN NEW;
  \<close>
  The trigger runs \<^verbatim>\<open>BEFORE INSERT OR UPDATE\<close>, for each row. An insert has no \<^verbatim>\<open>OLD\<close> row:
  \<open>OLD = None\<close>, and \<^verbatim>\<open>OLD.error_count\<close> is null.
\<close>

definition increment_error_count :: "status_row option \<Rightarrow> status_row \<Rightarrow> status_row" where
  "increment_error_count OLD NEW =
     (if row_status NEW = st_error
      then NEW\<lparr>error_count := Some (COALESCE (Option.bind OLD error_count) 0 + 1)\<rparr>
      else NEW)"

text \<open>\<^verbatim>\<open>INSERT INTO system_status\<close>, for a statement that reaches the table: the trigger,
  then the row is appended.\<close>

definition insert_row :: "status_row \<Rightarrow> status_row list \<Rightarrow> status_row list" where
  "insert_row NEW tbl = tbl @ [increment_error_count None NEW]"

text \<open>\<^verbatim>\<open>log_system_event(p_status, p_state, p_error)\<close>, with \<open>now\<close> the value of \<^verbatim>\<open>now()\<close>;
  returns the id of the new row.\<close>

definition log_system_event ::
  "system_status_type \<Rightarrow> payload option \<Rightarrow> string option \<Rightarrow> int \<Rightarrow> status_row list
     \<Rightarrow> nat \<times> status_row list" where
  "log_system_event p_status p_state p_error now tbl =
     (length tbl,
      insert_row
        \<lparr>row_status = p_status,
         last_known_state = COALESCE p_state Empty_object,
         last_reset_time = (if p_status = st_reset then Some now else None),
         last_backup_time = (if p_status = st_backup then Some now else None),
         last_restore_time = (if p_status = st_restore then Some now else None),
         error_count = Some (if p_status = st_error then 1 else 0),
         last_error = p_error\<rparr> tbl)"

text \<open>
  \<^verbatim>\<open>
  .select('last_backup_time')
  .order('last_backup_time', { ascending: false })
  .limit(1)
  .single()
  \<close>
  The order is PostgreSQL's \<^verbatim>\<open>ORDER BY last_backup_time DESC\<close>. The call gives no
  \<^verbatim>\<open>nullsFirst\<close> option, so the nulls are placed by the database default, which for a
  descending order is \<^verbatim>\<open>NULLS FIRST\<close>: a null sorts as larger than every value.
  \<^verbatim>\<open>single()\<close> yields the row when there is exactly one, and no data otherwise.
\<close>

definition order_last_backup_time_desc :: "status_row list \<Rightarrow> status_row list" where
  "order_last_backup_time_desc rows =
     filter (\<lambda>r. last_backup_time r = None) rows @
     sort_key (\<lambda>r. - the (last_backup_time r)) (filter (\<lambda>r. last_backup_time r \<noteq> None) rows)"

definition single :: "'a list \<Rightarrow> 'a option" where
  "single rows = (case rows of [r] \<Rightarrow> Some r | _ \<Rightarrow> None)"

definition select_last_backup :: "status_row list \<Rightarrow> int option option" where
  "select_last_backup tbl =
     map_option last_backup_time (single (take 1 (order_last_backup_time_desc tbl)))"

text \<open>The reading the specification gives of the same query: the most recent backup time
  that is not null.\<close>

definition latestBackupTime :: "status_row list \<Rightarrow> int option" where
  "latestBackupTime tbl =
     (case List.map_filter last_backup_time tbl of
        [] \<Rightarrow> None
      | t # ts \<Rightarrow> Some (fold max ts t))"

text \<open>
  Two readings of "the stored error count" of a table, for the claims about it: the largest
  \<^verbatim>\<open>error_count\<close> of a row (the "current maximum"), and the sum of \<^verbatim>\<open>error_count\<close> over the
  rows. A null counts as zero.
\<close>

definition max_error_count :: "status_row list \<Rightarrow> int" where
  "max_error_count tbl = fold max (map (\<lambda>r. COALESCE (error_count r) 0) tbl) 0"

definition total_error_count :: "status_row list \<Rightarrow> int" where
  "total_error_count tbl = sum_list (map (\<lambda>r. COALESCE (error_count r) 0) tbl)"


section \<open>The backup executor: \<^verbatim>\<open>backupDatabase\<close>\<close>

record BackupResult =
  success :: bool
  path :: "string option"
  timestamp :: "string option"
  error :: "string option"

text \<open>
  What one run of \<^verbatim>\<open>backupDatabase\<close> reads from outside the program: the time stamp
  of the file name, what the shell pipeline \<^verbatim>\<open>pg_dump ... | gzip > compressedPath\<close> left at
  the path (a file of some size, with its modification time, or no file) and whether
  \<^verbatim>\<open>execAsync\<close> rejected, the clock read by the sweep, whether the \<^verbatim>\<open>psql\<close> command
  rejected, and the \<^verbatim>\<open>CURRENT_TIMESTAMP\<close> of its insert.
\<close>

record backup_env =
  env_timestamp :: string
  dump_written :: "nat option"
  dump_mtime :: int
  dump_thrown :: "exn option"
  sweep_now :: int
  psql_thrown :: "exn option"
  db_timestamp :: int

record world =
  dir :: directory
  system_status :: "status_row list"

definition write_file :: "string \<Rightarrow> nat \<Rightarrow> int \<Rightarrow> directory \<Rightarrow> directory" where
  "write_file p n t fs = filter (\<lambda>f. name f \<noteq> p) fs @ [\<lparr>name = p, time = t, size_bytes = n\<rparr>]"

text \<open>\<^verbatim>\<open>fs.statSync(path).size\<close>, read only where the path exists.\<close>

definition statSync_size :: "string \<Rightarrow> directory \<Rightarrow> nat" where
  "statSync_size p fs = (case filter (\<lambda>f. name f = p) fs of f # _ \<Rightarrow> size_bytes f | [] \<Rightarrow> 0)"

text \<open>The \<^verbatim>\<open>catch\<close> block of \<^verbatim>\<open>backupDatabase\<close>.\<close>

definition backup_failed :: "exn \<Rightarrow> BackupResult" where
  "backup_failed e =
     \<lparr>success = False, path = None, timestamp = None,
      error = Some (message_or ''Unknown error during backup'' e)\<rparr>"

definition compressedPath :: "backup_env \<Rightarrow> string" where
  "compressedPath env = (''db_backup_'' @ env_timestamp env @ ''.sql'') @ ''.gz''"

text \<open>The effect of the shell command \<^verbatim>\<open>pg_dump ... | gzip > compressedPath\<close> on the
  directory.\<close>

definition exec_dump :: "backup_env \<Rightarrow> directory \<Rightarrow> directory" where
  "exec_dump env fs =
     (case dump_written env of
        None \<Rightarrow> fs
      | Some n \<Rightarrow> write_file (compressedPath env) n (dump_mtime env) fs)"

definition backupDatabase :: "config \<Rightarrow> backup_env \<Rightarrow> world \<Rightarrow> BackupResult \<times> world" where
  "backupDatabase cfg env w =
     (let fs1 = exec_dump env (dir w);
          w1 = w\<lparr>dir := fs1\<rparr>
      in case dump_thrown env of
        Some e \<Rightarrow> (backup_failed e, w1)
      | None \<Rightarrow>
          if \<not> existsSync (compressedPath env) fs1 \<or> statSync_size (compressedPath env) fs1 = 0
          then (backup_failed (JsError ''Backup file is empty or was not created''), w1)
          else (case cleanOldBackups cfg (sweep_now env) fs1 of
              (Some e, fs2) \<Rightarrow> (backup_failed e, w1\<lparr>dir := fs2\<rparr>)
            | (None, fs2) \<Rightarrow>
                (case psql_thrown env of
                   Some e \<Rightarrow> (backup_failed e, w1\<lparr>dir := fs2\<rparr>)
                 | None \<Rightarrow>
                     (\<lparr>success = True, path = Some (compressedPath env),
                       timestamp = Some (env_timestamp env), error = None\<rparr>,
                      \<lparr>dir = fs2,
                       system_status =
                         insert_row
                           (default_row\<lparr>row_status := st_backup,
                              last_known_state := Backup_file (compressedPath env),
                              last_backup_time := Some (db_timestamp env)\<rparr>)
                           (system_status w)\<rparr>))))"


section \<open>The monitor: \<^verbatim>\<open>DatabaseMonitor.checkSystem\<close>\<close>

definition CRITICAL_TABLES :: "string list" where
  "CRITICAL_TABLES = [''user_profiles'', ''schools'', ''school_users'', ''content'']"

text \<open>The decimal digits of a count, as the template literal prints a number of that
  size.\<close>

fun show_nat :: "nat \<Rightarrow> string" where
  "show_nat n =
     (if n < 10 then [''0123456789'' ! n]
      else show_nat (n div 10) @ [''0123456789'' ! (n mod 10)])"

declare show_nat.simps [simp del]

text \<open>
  \<^verbatim>\<open>
  const threshold = previousCount * 0.1; // 10% change threshold
  if (count < previousCount - threshold) {
  \<close>
  The source computes in double precision numbers; the model computes in the rationals.
  The two agree on the comparison for every count that a table can hold: \<open>9 * prev / 10\<close>
  is an integer or at least \<open>1/10\<close> away from one, and the rounding error of the two
  operations is far smaller.
\<close>

definition threshold :: "nat \<Rightarrow> rat" where
  "threshold previousCount = of_nat previousCount * (1 / 10)"

definition data_loss :: "nat \<Rightarrow> nat \<Rightarrow> bool" where
  "data_loss previousCount count = (of_nat count < of_nat previousCount - threshold previousCount)"

definition loss_warning :: "string \<Rightarrow> nat \<Rightarrow> nat \<Rightarrow> string" where
  "loss_warning table previousCount count =
     ''Significant data loss detected in '' @ table @ '': Previous='' @ show_nat previousCount
       @ '', Current='' @ show_nat count"

text \<open>The reply \<^verbatim>\<open>{ count, error }\<close> of the exact count of a table; \<open>count_error\<close> is
  \<^verbatim>\<open>error.message\<close>. The client returns a failure in the reply and does not throw; the count
  is a number or null.\<close>

record count_reply =
  count :: "nat option"
  count_error :: "string option"

text \<open>
  What one tick reads from outside the program: the date of the check, the error of the
  \<^verbatim>\<open>version\<close> call, the reply of the count of each table, the time stamp written into an
  incident row, the clock of the backup age check, whether the insert of the incident row
  after a backup run (by the number of the run) and the insert of the audit row reach the
  table, and the environment of each run of \<^verbatim>\<open>backupDatabase\<close> in the tick, by its number.
\<close>

record tick_env =
  check_date :: int
  version_error :: "exn option"
  select_count :: "string \<Rightarrow> count_reply"
  incident_timestamp :: string
  age_now :: int
  incident_insert :: "nat \<Rightarrow> bool"
  audit_insert :: bool
  backups :: "nat \<Rightarrow> backup_env"

text \<open>The state a tick threads through its steps: the local \<^verbatim>\<open>state\<close>, the directory and
  the table, and the number of backup runs so far.\<close>

record tick =
  state :: SystemState
  world_of :: world
  runs :: nat

definition push_warning :: "string \<Rightarrow> tick \<Rightarrow> tick" where
  "push_warning m t = t\<lparr>state := (state t)\<lparr>warnings := warnings (state t) @ [m]\<rparr>\<rparr>"

definition push_error :: "string \<Rightarrow> tick \<Rightarrow> tick" where
  "push_error m t = t\<lparr>state := (state t)\<lparr>errors := errors (state t) @ [m]\<rparr>\<rparr>"

text \<open>
  \<^verbatim>\<open>await supabase.from('system_status').insert({ ... })\<close>, as the monitor calls it. The
  client returns a failure in its reply, which the source does not read, and a throw is
  caught and logged by the caller: in both cases no row is written and the tick goes on.
  \<open>reaches\<close> tells whether the insert reaches the table.
\<close>

definition insert_status :: "bool \<Rightarrow> status_row \<Rightarrow> world \<Rightarrow> world" where
  "insert_status reaches r w =
     (if reaches then w\<lparr>system_status := insert_row r (system_status w)\<rparr> else w)"

text \<open>
  \<^verbatim>\<open>
  const result = await backupDatabase();
  if (!result.success) { throw new Error(result.error || 'Backup failed'); }
  \<close>
  The handler of \<^verbatim>\<open>createBackup\<close> logs and throws again.
\<close>

definition createBackup :: "config \<Rightarrow> tick_env \<Rightarrow> tick \<Rightarrow> exn option \<times> tick" where
  "createBackup cfg env t =
     (let (result, w') = backupDatabase cfg (backups env (runs t)) (world_of t);
          t' = t\<lparr>world_of := w', runs := Suc (runs t)\<rparr>
      in if \<not> success result
         then (Some (JsError (case error result of
                                None \<Rightarrow> ''Backup failed''
                              | Some m \<Rightarrow> if m = [] then ''Backup failed'' else m)), t')
         else (None, t'))"

text \<open>
  \<^verbatim>\<open>handleDataLoss(state)\<close>: a backup, then the insert of the incident row; whatever is
  thrown is logged and dropped.
\<close>

definition handleDataLoss :: "config \<Rightarrow> tick_env \<Rightarrow> tick \<Rightarrow> tick" where
  "handleDataLoss cfg env t =
     (case createBackup cfg env t of
        (Some e, t') \<Rightarrow> t'
      | (None, t') \<Rightarrow>
          t'\<lparr>world_of :=
               insert_status (incident_insert env (runs t))
                 (default_row\<lparr>row_status := st_error,
                    last_known_state := Incident (state t') (incident_timestamp env)\<rparr>)
                 (world_of t')\<rparr>)"

text \<open>
  The body of the loop over the critical tables, for one table; \<open>known\<close> is
  \<^verbatim>\<open>this.lastKnownState\<close>. The guard \<^verbatim>\<open>this.lastKnownState?.tables[table] && count !== null\<close>
  holds when there is a last known state, it has a count for the table that is not zero, and
  the reply carries a count.
\<close>

definition check_table ::
  "config \<Rightarrow> tick_env \<Rightarrow> SystemState option \<Rightarrow> string \<Rightarrow> tick \<Rightarrow> tick" where
  "check_table cfg env known table t =
     (let reply = select_count env table in
      case count_error reply of
        Some m \<Rightarrow> push_error (''Error checking table '' @ table @ '': '' @ m) t
      | None \<Rightarrow>
          (let t1 = t\<lparr>state := (state t)\<lparr>tables :=
                        (tables (state t))(table \<mapsto> COALESCE (count reply) 0)\<rparr>\<rparr>
           in case (Option.bind known (\<lambda>s. tables s table), count reply) of
                (Some previousCount, Some c) \<Rightarrow>
                  if previousCount \<noteq> 0 \<and> data_loss previousCount c
                  then (let t2 = push_warning (loss_warning table previousCount c) t1
                        in handleDataLoss cfg env (t2\<lparr>state := (state t2)\<lparr>status := Warning\<rparr>\<rparr>))
                  else t1
              | _ \<Rightarrow> t1))"

text \<open>\<^verbatim>\<open>for (const table of this.CRITICAL_TABLES) { ... }\<close>\<close>

fun check_tables ::
  "config \<Rightarrow> tick_env \<Rightarrow> SystemState option \<Rightarrow> string list \<Rightarrow> tick \<Rightarrow> tick" where
  "check_tables cfg env known [] t = t"
| "check_tables cfg env known (table # rest) t =
     check_tables cfg env known rest (check_table cfg env known table t)"

text \<open>The check of the last backup, after the loop.\<close>

definition check_backup :: "config \<Rightarrow> tick_env \<Rightarrow> tick \<Rightarrow> exn option \<times> tick" where
  "check_backup cfg env t =
     (case select_last_backup (system_status (world_of t)) of
        Some (Some ts) \<Rightarrow>
          (let t1 = t\<lparr>state := (state t)\<lparr>lastBackup := Some ts\<rparr>\<rparr>
           in if age_now env - ts > 24 * 60 * 60 * 1000
              then createBackup cfg env (push_warning ''No recent backup found (>24 hours)'' t1)
              else (None, t1))
      | _ \<Rightarrow> createBackup cfg env (push_warning ''No backup history found'' t))"

text \<open>\<^verbatim>\<open>updateSystemStatus(state)\<close>: the insert of the audit row of the tick. The function
  has its own handler and never throws.\<close>

definition status_record :: "SystemState \<Rightarrow> status_row" where
  "status_record st =
     default_row
       \<lparr>row_status := (if status st = Healthy then st_initialized else st_error),
        last_known_state := State st,
        error_count := Some (int (length (errors st))),
        last_error := (case errors st of [] \<Rightarrow> None | e # _ \<Rightarrow> Some e)\<rparr>"

definition updateSystemStatus :: "tick_env \<Rightarrow> SystemState \<Rightarrow> world \<Rightarrow> world" where
  "updateSystemStatus env st w = insert_status (audit_insert env) (status_record st) w"

text \<open>
  What a tick leaves: the monitor's \<^verbatim>\<open>lastKnownState\<close>, the directory and the table,
  the local \<^verbatim>\<open>state\<close> at the end of the tick (the snapshot of the tick), the value caught by
  the handler of \<^verbatim>\<open>checkSystem\<close> if it ran, and the number of backup runs.
\<close>

record outcome =
  lastKnownState :: "SystemState option"
  final_world :: world
  snapshot :: SystemState
  caught :: "exn option"
  backup_runs :: nat

text \<open>The \<^verbatim>\<open>catch\<close> block of \<^verbatim>\<open>checkSystem\<close>.\<close>

definition catch_block :: "tick_env \<Rightarrow> exn \<Rightarrow> SystemState option \<Rightarrow> tick \<Rightarrow> outcome" where
  "catch_block env e known t =
     (let st = (state t)\<lparr>status := Error,
                 errors := errors (state t) @ [message_or ''Unknown error'' e]\<rparr>
      in \<lparr>lastKnownState = known, final_world = updateSystemStatus env st (world_of t),
          snapshot = st, caught = Some e, backup_runs = runs t\<rparr>)"

definition initial_state :: "tick_env \<Rightarrow> SystemState" where
  "initial_state env =
     \<lparr>status = Healthy, lastCheck = check_date env, tables = Map.empty, lastBackup = None,
      warnings = [], errors = []\<rparr>"

definition checkSystem :: "config \<Rightarrow> tick_env \<Rightarrow> SystemState option \<Rightarrow> world \<Rightarrow> outcome" where
  "checkSystem cfg env known w =
     (let t0 = \<lparr>state = initial_state env, world_of = w, runs = 0\<rparr>
      in case version_error env of
        Some e \<Rightarrow> catch_block env e known t0
      | None \<Rightarrow>
          (let t1 = check_tables cfg env known CRITICAL_TABLES t0
           in case check_backup cfg env t1 of
             (Some e, t2) \<Rightarrow> catch_block env e known t2
           | (None, t2) \<Rightarrow>
               (let st = (state t2)\<lparr>status :=
                            (if errors (state t2) \<noteq> [] then Error
                             else if warnings (state t2) \<noteq> [] then Warning
                             else status (state t2))\<rparr>
                in \<lparr>lastKnownState = Some st,
                    final_world = updateSystemStatus env st (world_of t2),
                    snapshot = st, caught = None, backup_runs = runs t2\<rparr>)))"


section \<open>Notions used to state the properties of a tick\<close>

text \<open>The warnings that the loop body pushes for one table: none, or the data loss warning.\<close>

definition table_warning :: "SystemState option \<Rightarrow> tick_env \<Rightarrow> string \<Rightarrow> string list" where
  "table_warning known env table =
     (case (count_error (select_count env table), Option.bind known (\<lambda>s. tables s table),
            count (select_count env table)) of
        (None, Some previousCount, Some c) \<Rightarrow>
          if previousCount \<noteq> 0 \<and> data_loss previousCount c
          then [loss_warning table previousCount c] else []
      | _ \<Rightarrow> [])"

text \<open>The errors that the loop body pushes for one table: none, or the error of the count.\<close>

definition table_error :: "tick_env \<Rightarrow> string \<Rightarrow> string list" where
  "table_error env table =
     (case count_error (select_count env table) of
        Some m \<Rightarrow> [''Error checking table '' @ table @ '': '' @ m]
      | None \<Rightarrow> [])"

text \<open>The rows that a tick writes besides its audit row: the row of a backup that succeeded,
  and the incident row of \<^verbatim>\<open>handleDataLoss\<close>.\<close>

definition is_backup_row :: "status_row \<Rightarrow> bool" where
  "is_backup_row r =
     (row_status r = st_backup \<and> (case last_known_state r of Backup_file _ \<Rightarrow> True | _ \<Rightarrow> False))"

definition is_incident_row :: "status_row \<Rightarrow> bool" where
  "is_incident_row r =
     (row_status r = st_error \<and> (case last_known_state r of Incident _ _ \<Rightarrow> True | _ \<Rightarrow> False))"



section \<open>Properties of the retention sweep\<close>

lemma existsSync_filter: "existsSync p (filter (\<lambda>f. name f \<noteq> q) fs) = (existsSync p fs \<and> p \<noteq> q)"
  by (auto simp: existsSync_def)

lemma names_unlink:
  "name ` set (filter (\<lambda>f. name f \<noteq> p) fs) = name ` set fs - {p}"
  by auto

lemma remove_old_present:
  "distinct (map name xs) \<Longrightarrow> set (map name xs) \<subseteq> set (map name fs) \<Longrightarrow>
   remove_old xs fs = (None, filter (\<lambda>f. name f \<notin> set (map name xs)) fs)"
proof (induction xs arbitrary: fs)
  case Nil
  then show ?case by simp
next
  case (Cons x xs)
  have ex: "existsSync (name x) fs" using Cons.prems(2) by (auto simp: existsSync_def)
  let ?fs' = "filter (\<lambda>f. name f \<noteq> name x) fs"
  have "name x \<notin> name ` set xs" and "name ` set xs \<subseteq> name ` set fs"
    using Cons.prems by simp_all
  then have "name ` set xs \<subseteq> name ` set fs - {name x}" by blast
  then have sub: "set (map name xs) \<subseteq> set (map name ?fs')"
    unfolding set_map names_unlink .
  have "remove_old (x # xs) fs = remove_old xs ?fs'"
    using ex by (simp add: unlinkSync_def)
  also have "\<dots> = (None, filter (\<lambda>f. name f \<notin> set (map name xs)) ?fs')"
    using Cons.IH [OF _ sub] Cons.prems(1) by simp
  also have "filter (\<lambda>f. name f \<notin> set (map name xs)) ?fs' = filter (\<lambda>f. name f \<notin> set (map name (x # xs))) fs"
    by (auto intro: filter_cong)
  finally show ?case .
qed

lemma remove_expired_present:
  "distinct (map name ys) \<Longrightarrow> set (map name ys) \<subseteq> set (map name fs) \<Longrightarrow>
   remove_expired now r (ys @ zs) fs =
   remove_expired now r zs (filter (\<lambda>f. name f \<notin> name ` {y \<in> set ys. now - time y > r}) fs)"
proof (induction ys arbitrary: fs)
  case Nil
  then show ?case by simp
next
  case (Cons y ys)
  show ?case
  proof (cases "now - time y > r")
    case False
    have "{a \<in> set (y # ys). now - time a > r} = {a \<in> set ys. now - time a > r}"
      using False by auto
    then show ?thesis using Cons False by simp
  next
    case True
    have ex: "existsSync (name y) fs" using Cons.prems(2) by (auto simp: existsSync_def)
    let ?fs' = "filter (\<lambda>f. name f \<noteq> name y) fs"
    have "name y \<notin> name ` set ys" and "name ` set ys \<subseteq> name ` set fs"
      using Cons.prems by simp_all
    then have "name ` set ys \<subseteq> name ` set fs - {name y}" by blast
    then have sub: "set (map name ys) \<subseteq> set (map name ?fs')"
      unfolding set_map names_unlink .
    have "remove_expired now r ((y # ys) @ zs) fs = remove_expired now r (ys @ zs) ?fs'"
      using ex True by (simp add: unlinkSync_def)
    also have "\<dots> = remove_expired now r zs
        (filter (\<lambda>f. name f \<notin> name ` {a \<in> set ys. now - time a > r}) ?fs')"
      using Cons.IH [OF _ sub] Cons.prems(1) by simp
    also have "filter (\<lambda>f. name f \<notin> name ` {a \<in> set ys. now - time a > r}) ?fs'
        = filter (\<lambda>f. name f \<notin> name ` {a \<in> set (y # ys). now - time a > r}) fs"
      using True by (auto intro: filter_cong)
    finally show ?thesis .
  qed
qed

lemma remove_expired_absent:
  "set (map name zs) \<inter> set (map name fs) = {} \<Longrightarrow>
   remove_expired now r zs fs =
     (case filter (\<lambda>z. now - time z > r) zs of [] \<Rightarrow> None | z # _ \<Rightarrow> Some (ENOENT (name z)), fs)"
  by (induction zs) (auto simp: unlinkSync_def existsSync_def)

lemma distinct_names_sort:
  "distinct (map name (sort_key k xs)) = distinct (map name xs)"
  by (simp add: distinct_map)

lemma wf_backup_files: "wf_dir fs \<Longrightarrow> distinct (map name (backup_files fs))"
  by (simp add: wf_dir_def backup_files_def distinct_names_sort distinct_map_filter)


lemma set_backup_files: "set (backup_files fs) = set (artifacts fs)"
  by (simp add: backup_files_def artifacts_def)

lemma disjoint_names:
  assumes "\<And>f. f \<in> set B \<Longrightarrow> name f \<notin> name ` set A"
  shows "set (map name A) \<inter> set (map name B) = {}"
proof -
  have "False" if "n \<in> name ` set A" and "n \<in> name ` set B" for n
  proof -
    from that(2) obtain b where "b \<in> set B" and "n = name b" by auto
    with assms have "n \<notin> name ` set A" by simp
    with that(1) show False by simp
  qed
  then show ?thesis unfolding set_map by blast
qed

lemma cleanOldBackups_eq:
  assumes wf: "wf_dir fs" and nonneg: "0 \<le> MAX_BACKUPS cfg"
  shows "cleanOldBackups cfg now fs =
     (case filter (expired cfg now) (drop (nat (MAX_BACKUPS cfg)) (backup_files fs)) of
        [] \<Rightarrow> None | z # _ \<Rightarrow> Some (ENOENT (name z)),
      filter (\<lambda>f. name f \<notin> name ` (set (drop (nat (MAX_BACKUPS cfg)) (backup_files fs))
                 \<union> {y \<in> set (take (nat (MAX_BACKUPS cfg)) (backup_files fs)). expired cfg now y})) fs)"
proof -
  define files where "files = backup_files fs"
  define m where "m = nat (MAX_BACKUPS cfg)"
  define r where "r = retentionMs cfg"
  define old where "old = drop m files"
  define young where "young = take m files"
  define fs1 where "fs1 = filter (\<lambda>f. name f \<notin> set (map name old)) fs"
  have split: "files = young @ old" by (simp add: young_def old_def)
  have dist: "distinct (map name files)" using wf by (simp add: files_def wf_backup_files)
  have sub: "set files \<subseteq> set fs" by (auto simp: files_def backup_files_def)
  have d_old: "distinct (map name old)" and d_young: "distinct (map name young)"
    and disj: "set (map name young) \<inter> set (map name old) = {}"
    using dist unfolding split by auto
  have old_sub: "set (map name old) \<subseteq> set (map name fs)"
    using sub unfolding split by auto
  have first: "(if int (length files) > MAX_BACKUPS cfg
            then remove_old (slice (MAX_BACKUPS cfg) files) fs else (None, fs)) = (None, fs1)"
  proof (cases "int (length files) > MAX_BACKUPS cfg")
    case True
    have "slice (MAX_BACKUPS cfg) files = old" using nonneg by (simp add: slice_def old_def m_def)
    then show ?thesis using True remove_old_present [OF d_old old_sub] by (simp add: fs1_def)
  next
    case False
    then have "old = []" using nonneg by (simp add: old_def m_def)
    then show ?thesis using False by (simp add: fs1_def)
  qed
  have young_sub: "set (map name young) \<subseteq> set (map name fs1)"
    using sub disj unfolding split fs1_def by auto
  let ?fs2 = "filter (\<lambda>f. name f \<notin> name ` {y \<in> set young. now - time y > r}) fs1"
  have "\<And>f. f \<in> set ?fs2 \<Longrightarrow> name f \<notin> name ` set old"
    by (simp add: fs1_def)
  then have absent: "set (map name old) \<inter> set (map name ?fs2) = {}"
    by (rule disjoint_names)
  have "cleanOldBackups cfg now fs = remove_expired now r (young @ old) fs1"
    using first by (simp add: cleanOldBackups_def files_def [symmetric] split [symmetric] r_def)
  also have "\<dots> = remove_expired now r old ?fs2"
    by (rule remove_expired_present [OF d_young young_sub])
  also have "\<dots> = (case filter (\<lambda>z. now - time z > r) old of
                       [] \<Rightarrow> None | z # _ \<Rightarrow> Some (ENOENT (name z)), ?fs2)"
    by (rule remove_expired_absent [OF absent])
  also have "?fs2 = filter (\<lambda>f. name f \<notin> name ` (set old \<union> {y \<in> set young. now - time y > r})) fs"
    by (auto simp: fs1_def intro: filter_cong)
  finally show ?thesis
    by (simp add: old_def young_def files_def m_def r_def expired_def [abs_def])
qed

lemma wf_dir_filter: "wf_dir fs \<Longrightarrow> wf_dir (filter P fs)"
  by (simp add: wf_dir_def distinct_map_filter)

lemma wf_dir_sweep:
  assumes "wf_dir fs" "0 \<le> MAX_BACKUPS cfg"
  shows "wf_dir (snd (cleanOldBackups cfg now fs))"
  using assms by (simp add: cleanOldBackups_eq wf_dir_filter)

lemma survivors_sweep:
  assumes wf: "wf_dir fs" and nonneg: "0 \<le> MAX_BACKUPS cfg"
  shows "set (artifacts (snd (cleanOldBackups cfg now fs))) =
         {f \<in> set (take (nat (MAX_BACKUPS cfg)) (backup_files fs)). \<not> expired cfg now f}"
proof -
  define files where "files = backup_files fs"
  define m where "m = nat (MAX_BACKUPS cfg)"
  have dist: "distinct (map name files)" using wf by (simp add: files_def wf_backup_files)
  then have inj: "inj_on name (set files)" by (simp add: distinct_map)
  have set_files: "set files = set (artifacts fs)" by (simp add: files_def set_backup_files)
  have parts: "set files = set (take m files) \<union> set (drop m files)"
    by (metis append_take_drop_id set_append)
  have disj: "name ` set (take m files) \<inter> name ` set (drop m files) = {}"
    using dist by (metis append_take_drop_id distinct_append map_append set_map)
  have "set (artifacts (snd (cleanOldBackups cfg now fs))) =
        {f \<in> set files. name f \<notin> name ` (set (drop m files)
             \<union> {y \<in> set (take m files). expired cfg now y})}"
    using wf nonneg
    by (auto simp: cleanOldBackups_eq artifacts_def files_def m_def backup_files_def)
  also have "\<dots> = {f \<in> set (take m files). \<not> expired cfg now f}"
  proof (intro set_eqI iffI)
    fix f
    assume "f \<in> {f \<in> set files. name f \<notin> name ` (set (drop m files)
             \<union> {y \<in> set (take m files). expired cfg now y})}"
    then have f: "f \<in> set files" and n1: "name f \<notin> name ` set (drop m files)"
      and n2: "name f \<notin> name ` {y \<in> set (take m files). expired cfg now y}"
      by auto
    from f n1 parts have "f \<in> set (take m files)" by blast
    with n2 show "f \<in> {f \<in> set (take m files). \<not> expired cfg now f}" by blast
  next
    fix f
    assume "f \<in> {f \<in> set (take m files). \<not> expired cfg now f}"
    then have f: "f \<in> set (take m files)" and ne: "\<not> expired cfg now f" by auto
    from f parts have ff: "f \<in> set files" by blast
    from f disj have n1: "name f \<notin> name ` set (drop m files)" by blast
    have n2: "name f \<notin> name ` {y \<in> set (take m files). expired cfg now y}"
    proof
      assume "name f \<in> name ` {y \<in> set (take m files). expired cfg now y}"
      then obtain y where y: "y \<in> set (take m files)" "expired cfg now y" "name f = name y"
        by auto
      from y(1) parts have "y \<in> set files" by blast
      with inj ff y(3) have "f = y" by (auto dest: inj_onD)
      with y(2) ne show False by simp
    qed
    from ff n1 n2 show "f \<in> {f \<in> set files. name f \<notin> name ` (set (drop m files)
             \<union> {y \<in> set (take m files). expired cfg now y})}" by auto
  qed
  finally show ?thesis by (simp add: files_def m_def)
qed

lemma distinct_artifacts: "wf_dir fs \<Longrightarrow> distinct (artifacts fs)"
  by (simp add: wf_dir_def artifacts_def distinct_map distinct_filter)

lemma length_survivors_sweep:
  assumes wf: "wf_dir fs" and nonneg: "0 \<le> MAX_BACKUPS cfg"
  shows "int (length (artifacts (snd (cleanOldBackups cfg now fs)))) \<le> MAX_BACKUPS cfg"
proof -
  let ?fs' = "snd (cleanOldBackups cfg now fs)"
  let ?top = "take (nat (MAX_BACKUPS cfg)) (backup_files fs)"
  have "distinct (artifacts ?fs')"
    using wf nonneg by (simp add: distinct_artifacts wf_dir_sweep)
  then have "length (artifacts ?fs') = card (set (artifacts ?fs'))"
    by (simp add: distinct_card)
  also have "\<dots> \<le> card (set ?top)"
  proof (rule card_mono)
    show "finite (set ?top)" by (rule finite_set)
    show "set (artifacts ?fs') \<subseteq> set ?top"
      unfolding survivors_sweep [OF wf nonneg] by (rule Collect_restrict)
  qed
  also have "\<dots> \<le> length ?top" by (rule card_length)
  also have "\<dots> \<le> nat (MAX_BACKUPS cfg)" by simp
  finally show ?thesis using nonneg by simp
qed

lemma length_backup_files: "length (backup_files fs) = length (artifacts fs)"
  by (simp add: backup_files_def artifacts_def)

lemma sweep_again:
  assumes wf: "wf_dir fs" and nonneg: "0 \<le> MAX_BACKUPS cfg"
  shows "cleanOldBackups cfg now (snd (cleanOldBackups cfg now fs))
           = (None, snd (cleanOldBackups cfg now fs))"
proof -
  define fs' where "fs' = snd (cleanOldBackups cfg now fs)"
  define m where "m = nat (MAX_BACKUPS cfg)"
  have wf': "wf_dir fs'" using wf nonneg by (simp add: fs'_def wf_dir_sweep)
  have "length (backup_files fs') \<le> m"
    using length_survivors_sweep [OF wf nonneg, of now] nonneg
    by (simp add: length_backup_files fs'_def m_def)
  then have dr: "drop m (backup_files fs') = []" and tk: "take m (backup_files fs') = backup_files fs'"
    by simp_all
  have fresh: "\<And>y. y \<in> set (backup_files fs') \<Longrightarrow> \<not> expired cfg now y"
    using survivors_sweep [OF wf nonneg, of now] by (simp add: set_backup_files fs'_def)
  then have none: "{y \<in> set (backup_files fs'). expired cfg now y} = {}" by blast
  have "cleanOldBackups cfg now fs' = (None, fs')"
    using cleanOldBackups_eq [OF wf' nonneg, of now]
    by (simp add: m_def [symmetric] dr tk none)
  then show ?thesis by (simp add: fs'_def)
qed

lemma not_exists_filtered:
  assumes g: "g \<in> A"
  shows "\<not> existsSync (name g) (filter (\<lambda>f. name f \<notin> name ` (A \<union> B)) fs)"
proof
  assume "existsSync (name g) (filter (\<lambda>f. name f \<notin> name ` (A \<union> B)) fs)"
  then obtain f where "f \<in> set fs" and "name f \<notin> name ` (A \<union> B)" and "name g = name f"
    by (auto simp: existsSync_def)
  moreover from g have "name g \<in> name ` (A \<union> B)" by blast
  ultimately show False by simp
qed

lemma sweep_throws:
  assumes wf: "wf_dir fs" and nonneg: "0 \<le> MAX_BACKUPS cfg"
    and f: "f \<in> set (drop (nat (MAX_BACKUPS cfg)) (backup_files fs))" and ex: "expired cfg now f"
  shows "\<exists>g. g \<in> set (drop (nat (MAX_BACKUPS cfg)) (backup_files fs)) \<and> expired cfg now g
          \<and> fst (cleanOldBackups cfg now fs) = Some (ENOENT (name g))
          \<and> \<not> existsSync (name g) (snd (cleanOldBackups cfg now fs))"
proof -
  let ?old = "drop (nat (MAX_BACKUPS cfg)) (backup_files fs)"
  from f ex have "filter (expired cfg now) ?old \<noteq> []"
    by (auto simp: filter_empty_conv)
  then obtain g rest where g: "filter (expired cfg now) ?old = g # rest"
    by (cases "filter (expired cfg now) ?old") auto
  then have "g \<in> set (filter (expired cfg now) ?old)" by simp
  then have g_old: "g \<in> set ?old" and g_ex: "expired cfg now g" by auto
  have "fst (cleanOldBackups cfg now fs) = Some (ENOENT (name g))"
    using g by (simp add: cleanOldBackups_eq [OF wf nonneg])
  moreover have "\<not> existsSync (name g) (snd (cleanOldBackups cfg now fs))"
    using g_old by (simp add: cleanOldBackups_eq [OF wf nonneg] not_exists_filtered)
  ultimately show ?thesis using g_old g_ex by blast
qed

lemma example_sweep:
  "cleanOldBackups \<lparr>MAX_BACKUPS = 2, RETENTION_DAYS = 0\<rparr> 6000
      [\<lparr>name = ''a.sql.gz'', time = 1000, size_bytes = 10\<rparr>,
       \<lparr>name = ''b.sql.gz'', time = 5000, size_bytes = 10\<rparr>,
       \<lparr>name = ''notes.txt'', time = 0, size_bytes = 5\<rparr>,
       \<lparr>name = ''c.sql.gz'', time = 9000, size_bytes = 10\<rparr>]
   = (Some (ENOENT ''a.sql.gz''),
      [\<lparr>name = ''notes.txt'', time = 0, size_bytes = 5\<rparr>,
       \<lparr>name = ''c.sql.gz'', time = 9000, size_bytes = 10\<rparr>])"
  by (simp add: cleanOldBackups_def backup_files_def endsWith_def slice_def unlinkSync_def
      existsSync_def retentionMs_def)




lemma sweep_again_later:
  assumes wf: "wf_dir fs" and nonneg: "0 \<le> MAX_BACKUPS cfg"
    and fresh: "\<forall>f \<in> set (artifacts (snd (cleanOldBackups cfg now fs))). \<not> expired cfg now' f"
  shows "cleanOldBackups cfg now' (snd (cleanOldBackups cfg now fs))
           = (None, snd (cleanOldBackups cfg now fs))"
proof -
  define fs' where "fs' = snd (cleanOldBackups cfg now fs)"
  define m where "m = nat (MAX_BACKUPS cfg)"
  have wf': "wf_dir fs'" using wf nonneg by (simp add: fs'_def wf_dir_sweep)
  have "length (backup_files fs') \<le> m"
    using length_survivors_sweep [OF wf nonneg, of now] nonneg
    by (simp add: length_backup_files fs'_def m_def)
  then have dr: "drop m (backup_files fs') = []" and tk: "take m (backup_files fs') = backup_files fs'"
    by simp_all
  have "\<And>y. y \<in> set (backup_files fs') \<Longrightarrow> \<not> expired cfg now' y"
    using fresh by (simp add: set_backup_files fs'_def)
  then have none: "{y \<in> set (backup_files fs'). expired cfg now' y} = {}" by blast
  have "cleanOldBackups cfg now' fs' = (None, fs')"
    using cleanOldBackups_eq [OF wf' nonneg, of now']
    by (simp add: m_def [symmetric] dr tk none)
  then show ?thesis by (simp add: fs'_def)
qed



text \<open>
  Claim C9, as stated, fails. Every sweep reads the clock anew: an artifact that is exactly
  at the retention age on the first sweep is left by it and removed by a sweep one
  millisecond later. And with a negative \<^verbatim>\<open>MAX_BACKUPS\<close> the count pass removes the oldest
  artifact on every run.
\<close>

theorem retention_sweep_twice_counterexample:
  "snd (cleanOldBackups \<lparr>MAX_BACKUPS = 5, RETENTION_DAYS = 1\<rparr> 86400001
        (snd (cleanOldBackups \<lparr>MAX_BACKUPS = 5, RETENTION_DAYS = 1\<rparr> 86400000
           [\<lparr>name = ''a.sql.gz'', time = 0, size_bytes = 10\<rparr>])))
     \<noteq> snd (cleanOldBackups \<lparr>MAX_BACKUPS = 5, RETENTION_DAYS = 1\<rparr> 86400000
           [\<lparr>name = ''a.sql.gz'', time = 0, size_bytes = 10\<rparr>])
   \<and> snd (cleanOldBackups \<lparr>MAX_BACKUPS = - 1, RETENTION_DAYS = 7\<rparr> 3000
        (snd (cleanOldBackups \<lparr>MAX_BACKUPS = - 1, RETENTION_DAYS = 7\<rparr> 3000
           [\<lparr>name = ''a.sql.gz'', time = 1000, size_bytes = 10\<rparr>,
            \<lparr>name = ''b.sql.gz'', time = 2000, size_bytes = 10\<rparr>])))
     \<noteq> snd (cleanOldBackups \<lparr>MAX_BACKUPS = - 1, RETENTION_DAYS = 7\<rparr> 3000
           [\<lparr>name = ''a.sql.gz'', time = 1000, size_bytes = 10\<rparr>,
            \<lparr>name = ''b.sql.gz'', time = 2000, size_bytes = 10\<rparr>])"
  by (simp add: cleanOldBackups_def backup_files_def endsWith_def slice_def unlinkSync_def
      existsSync_def retentionMs_def)

text \<open>
  Claim C9, amended. For a directory with pairwise different names and a non-negative
  \<^verbatim>\<open>MAX_BACKUPS\<close>: when no file is added and no artifact that the first sweep left is
  older than the retention time at the clock reading of the second sweep, the second sweep
  removes nothing and throws nothing, so the directory after two sweeps is the directory
  after one. This is so in particular when both sweeps read the same clock value.
\<close>

theorem retention_sweep_idempotent:
  assumes "wf_dir fs" and "0 \<le> MAX_BACKUPS cfg"
    and "\<forall>f \<in> set (artifacts (snd (cleanOldBackups cfg now fs))). \<not> expired cfg now' f"
  shows "snd (cleanOldBackups cfg now' (snd (cleanOldBackups cfg now fs)))
           = snd (cleanOldBackups cfg now fs)
       \<and> fst (cleanOldBackups cfg now' (snd (cleanOldBackups cfg now fs))) = None
       \<and> snd (cleanOldBackups cfg now (snd (cleanOldBackups cfg now fs)))
           = snd (cleanOldBackups cfg now fs)
       \<and> fst (cleanOldBackups cfg now (snd (cleanOldBackups cfg now fs))) = None"
  using assms by (simp add: sweep_again sweep_again_later)

theorem retention_sweep_idempotent_witness:
  "wf_dir [\<lparr>name = ''a.sql.gz'', time = 1000, size_bytes = 10\<rparr>,
       \<lparr>name = ''b.sql.gz'', time = 5000, size_bytes = 10\<rparr>,
       \<lparr>name = ''notes.txt'', time = 0, size_bytes = 5\<rparr>,
       \<lparr>name = ''c.sql.gz'', time = 9000, size_bytes = 10\<rparr>]
   \<and> 0 \<le> MAX_BACKUPS \<lparr>MAX_BACKUPS = 2, RETENTION_DAYS = 0\<rparr>
   \<and> \<not> expired \<lparr>MAX_BACKUPS = 2, RETENTION_DAYS = 0\<rparr> 7000
          \<lparr>name = ''c.sql.gz'', time = 9000, size_bytes = 10\<rparr>
   \<and> snd (cleanOldBackups \<lparr>MAX_BACKUPS = 2, RETENTION_DAYS = 0\<rparr> 7000
        [\<lparr>name = ''notes.txt'', time = 0, size_bytes = 5\<rparr>,
         \<lparr>name = ''c.sql.gz'', time = 9000, size_bytes = 10\<rparr>])
      = [\<lparr>name = ''notes.txt'', time = 0, size_bytes = 5\<rparr>,
         \<lparr>name = ''c.sql.gz'', time = 9000, size_bytes = 10\<rparr>]
   \<and> snd (cleanOldBackups \<lparr>MAX_BACKUPS = 2, RETENTION_DAYS = 0\<rparr> 6000
        [\<lparr>name = ''notes.txt'', time = 0, size_bytes = 5\<rparr>,
         \<lparr>name = ''c.sql.gz'', time = 9000, size_bytes = 10\<rparr>])
      = [\<lparr>name = ''notes.txt'', time = 0, size_bytes = 5\<rparr>,
         \<lparr>name = ''c.sql.gz'', time = 9000, size_bytes = 10\<rparr>]"
proof -
  let ?fs = "[\<lparr>name = ''a.sql.gz'', time = 1000, size_bytes = 10\<rparr>,
       \<lparr>name = ''b.sql.gz'', time = 5000, size_bytes = 10\<rparr>,
       \<lparr>name = ''notes.txt'', time = 0, size_bytes = 5\<rparr>,
       \<lparr>name = ''c.sql.gz'', time = 9000, size_bytes = (10::nat)\<rparr>]"
  let ?cfg = "\<lparr>MAX_BACKUPS = 2, RETENTION_DAYS = 0\<rparr>"
  have wf: "wf_dir ?fs" by (simp add: wf_dir_def)
  have nonneg: "0 \<le> MAX_BACKUPS ?cfg" by simp
  have young: "\<not> expired ?cfg 7000 \<lparr>name = ''c.sql.gz'', time = 9000, size_bytes = 10\<rparr>"
    by (simp add: expired_def retentionMs_def)
  then have fresh: "\<forall>f \<in> set (artifacts (snd (cleanOldBackups ?cfg 6000 ?fs))).
      \<not> expired ?cfg 7000 f"
    by (simp add: example_sweep artifacts_def endsWith_def)
  from retention_sweep_idempotent [OF wf nonneg fresh] wf young
  show ?thesis by (simp add: example_sweep)
qed


section \<open>Properties of the backup executor\<close>

lemma wf_dir_write_file: "wf_dir fs \<Longrightarrow> wf_dir (write_file p n t fs)"
  by (auto simp: wf_dir_def write_file_def distinct_map_filter)

lemma existsSync_write_file: "existsSync p (write_file p n t fs)"
  by (simp add: existsSync_def write_file_def)

lemma statSync_size_write_file: "statSync_size p (write_file p n t fs) = n"
proof -
  have "filter (\<lambda>f. name f = p) (filter (\<lambda>f. name f \<noteq> p) fs) = []"
    by (simp add: filter_empty_conv)
  then show ?thesis by (simp add: statSync_size_def write_file_def)
qed

lemma backupDatabase_empty:
  assumes "dump_thrown env = None"
    and "\<not> existsSync (compressedPath env) (exec_dump env (dir w))
         \<or> statSync_size (compressedPath env) (exec_dump env (dir w)) = 0"
  shows "backupDatabase cfg env w =
     (backup_failed (JsError ''Backup file is empty or was not created''),
      w\<lparr>dir := exec_dump env (dir w)\<rparr>)"
  using assms by (simp add: backupDatabase_def Let_def)

lemma backupDatabase_sweep_throws:
  assumes "dump_thrown env = None"
    and "existsSync (compressedPath env) (exec_dump env (dir w))"
    and "statSync_size (compressedPath env) (exec_dump env (dir w)) \<noteq> 0"
    and "fst (cleanOldBackups cfg (sweep_now env) (exec_dump env (dir w))) = Some e"
  shows "backupDatabase cfg env w =
     (backup_failed e,
      w\<lparr>dir := snd (cleanOldBackups cfg (sweep_now env) (exec_dump env (dir w)))\<rparr>)"
proof -
  obtain r fs2 where c: "cleanOldBackups cfg (sweep_now env) (exec_dump env (dir w)) = (r, fs2)"
    by (cases "cleanOldBackups cfg (sweep_now env) (exec_dump env (dir w))") simp
  with assms(4) have "r = Some e" by simp
  with c assms(1-3) show ?thesis by (simp add: backupDatabase_def Let_def)
qed

lemma system_status_backupDatabase:
  "system_status (snd (backupDatabase cfg env w)) =
     (if success (fst (backupDatabase cfg env w))
      then insert_row (default_row\<lparr>row_status := st_backup,
                              last_known_state := Backup_file (compressedPath env),
                              last_backup_time := Some (db_timestamp env)\<rparr>) (system_status w)
      else system_status w)"
  by (simp add: backupDatabase_def Let_def backup_failed_def split: prod.splits option.splits)

text \<open>
  Claim C10. When the dump has written a non-empty artifact and the directory then holds an
  artifact that is both beyond the first \<^verbatim>\<open>MAX_BACKUPS\<close> of the sorted list and expired, the
  sweep throws: the count pass has removed the file, and the age pass calls \<^verbatim>\<open>unlinkSync\<close> on
  its path again, which fails with \<^verbatim>\<open>ENOENT\<close>. \<^verbatim>\<open>backupDatabase\<close> then reports failure, with
  that error, and writes no backup row, although the artifact exists and is not empty.
\<close>

theorem sweep_double_unlink_fails_backup:
  assumes wf: "wf_dir (dir w)" and nonneg: "0 \<le> MAX_BACKUPS cfg"
    and dump: "dump_thrown env = None" "dump_written env = Some n" "0 < n"
    and f: "f \<in> set (drop (nat (MAX_BACKUPS cfg)) (backup_files (exec_dump env (dir w))))"
    and ex: "expired cfg (sweep_now env) f"
  shows "\<exists>g. g \<in> set (drop (nat (MAX_BACKUPS cfg)) (backup_files (exec_dump env (dir w))))
           \<and> expired cfg (sweep_now env) g
           \<and> fst (cleanOldBackups cfg (sweep_now env) (exec_dump env (dir w))) = Some (ENOENT (name g))
           \<and> \<not> existsSync (name g) (snd (cleanOldBackups cfg (sweep_now env) (exec_dump env (dir w))))
           \<and> fst (backupDatabase cfg env w) = backup_failed (ENOENT (name g))
           \<and> \<not> success (fst (backupDatabase cfg env w))
           \<and> system_status (snd (backupDatabase cfg env w)) = system_status w
           \<and> existsSync (compressedPath env) (exec_dump env (dir w))
           \<and> statSync_size (compressedPath env) (exec_dump env (dir w)) = n"
proof -
  let ?fs1 = "exec_dump env (dir w)"
  have fs1: "?fs1 = write_file (compressedPath env) n (dump_mtime env) (dir w)"
    using dump(2) by (simp add: exec_dump_def)
  have wf1: "wf_dir ?fs1" using wf by (simp add: fs1 wf_dir_write_file)
  have there: "existsSync (compressedPath env) ?fs1"
    and size: "statSync_size (compressedPath env) ?fs1 = n"
    by (simp_all add: fs1 existsSync_write_file statSync_size_write_file)
  from sweep_throws [OF wf1 nonneg f ex]
  obtain g where g: "g \<in> set (drop (nat (MAX_BACKUPS cfg)) (backup_files ?fs1))"
      "expired cfg (sweep_now env) g"
      "fst (cleanOldBackups cfg (sweep_now env) ?fs1) = Some (ENOENT (name g))"
      "\<not> existsSync (name g) (snd (cleanOldBackups cfg (sweep_now env) ?fs1))"
    by blast
  have nz: "statSync_size (compressedPath env) ?fs1 \<noteq> 0" using size dump(3) by simp
  have run: "backupDatabase cfg env w =
     (backup_failed (ENOENT (name g)), w\<lparr>dir := snd (cleanOldBackups cfg (sweep_now env) ?fs1)\<rparr>)"
    by (rule backupDatabase_sweep_throws [OF dump(1) there nz g(3)])
  have "fst (backupDatabase cfg env w) = backup_failed (ENOENT (name g))"
    and "\<not> success (fst (backupDatabase cfg env w))"
    and "system_status (snd (backupDatabase cfg env w)) = system_status w"
    by (simp_all add: run backup_failed_def)
  with g there size show ?thesis by blast
qed

theorem sweep_double_unlink_fails_backup_witness:
  "wf_dir (dir \<lparr>dir = [\<lparr>name = ''old.sql.gz'', time = 1000, size_bytes = 10\<rparr>], system_status = []\<rparr>)
   \<and> \<lparr>name = ''old.sql.gz'', time = 1000, size_bytes = 10\<rparr>
       \<in> set (drop (nat 1) (backup_files (exec_dump
            \<lparr>env_timestamp = ''T'', dump_written = Some 10, dump_mtime = 10000,
              dump_thrown = None, sweep_now = 10000, psql_thrown = None, db_timestamp = 10000\<rparr>
            [\<lparr>name = ''old.sql.gz'', time = 1000, size_bytes = 10\<rparr>])))
   \<and> expired \<lparr>MAX_BACKUPS = 1, RETENTION_DAYS = 0\<rparr> 10000
         \<lparr>name = ''old.sql.gz'', time = 1000, size_bytes = 10\<rparr>
   \<and> \<not> success (fst (backupDatabase \<lparr>MAX_BACKUPS = 1, RETENTION_DAYS = 0\<rparr>
         \<lparr>env_timestamp = ''T'', dump_written = Some 10, dump_mtime = 10000,
           dump_thrown = None, sweep_now = 10000, psql_thrown = None, db_timestamp = 10000\<rparr>
         \<lparr>dir = [\<lparr>name = ''old.sql.gz'', time = 1000, size_bytes = 10\<rparr>], system_status = []\<rparr>))"
proof -
  let ?old = "\<lparr>name = ''old.sql.gz'', time = 1000, size_bytes = (10::nat)\<rparr>"
  let ?w = "\<lparr>dir = [?old], system_status = []\<rparr>"
  let ?cfg = "\<lparr>MAX_BACKUPS = 1, RETENTION_DAYS = 0\<rparr>"
  let ?env = "\<lparr>env_timestamp = ''T'', dump_written = Some 10, dump_mtime = 10000,
           dump_thrown = None, sweep_now = 10000, psql_thrown = None, db_timestamp = 10000\<rparr>"
  have wf: "wf_dir (dir ?w)" by (simp add: wf_dir_def)
  have nonneg: "0 \<le> MAX_BACKUPS ?cfg" by simp
  have d1: "dump_thrown ?env = None" and d2: "dump_written ?env = Some 10" and d3: "(0::nat) < 10"
    by simp_all
  have f: "?old \<in> set (drop (nat (MAX_BACKUPS ?cfg)) (backup_files (exec_dump ?env (dir ?w))))"
    by (simp add: exec_dump_def write_file_def compressedPath_def backup_files_def endsWith_def)
  have ex: "expired ?cfg (sweep_now ?env) ?old" by (simp add: expired_def retentionMs_def)
  from sweep_double_unlink_fails_backup [OF wf nonneg d1 d2 d3 f ex] wf f ex
  show ?thesis by auto
qed


section \<open>Properties of the audit table\<close>

lemma insert_error_row:
  "row_status r = st_error \<Longrightarrow> insert_row r tbl = tbl @ [r\<lparr>error_count := Some 1\<rparr>]"
  by (simp add: insert_row_def increment_error_count_def COALESCE_def)

lemma fold_insert_error_rows:
  "\<forall>r \<in> set rs. row_status r = st_error \<Longrightarrow>
   fold insert_row rs tbl = tbl @ map (\<lambda>r. r\<lparr>error_count := Some 1\<rparr>) rs"
  by (induction rs arbitrary: tbl) (simp_all add: insert_error_row)

text \<open>
  Claim C3, as stated, fails: after two error rows are appended to the empty table, the
  largest \<^verbatim>\<open>error_count\<close> is 1, not 2, and the last row carries 1.
\<close>

theorem error_count_two_appends_counterexample:
  "max_error_count
     (fold insert_row [default_row\<lparr>row_status := st_error\<rparr>, default_row\<lparr>row_status := st_error\<rparr>] [])
     \<noteq> max_error_count [] + 2
   \<and> error_count (last
     (fold insert_row [default_row\<lparr>row_status := st_error\<rparr>, default_row\<lparr>row_status := st_error\<rparr>] []))
     = Some 1"
  by (simp add: max_error_count_def insert_row_def increment_error_count_def COALESCE_def
      default_row_def)

text \<open>
  Claim C3, amended. Every appended row with status \<^verbatim>\<open>error\<close> is stored with
  \<^verbatim>\<open>error_count = 1\<close>, whatever the table holds and whatever count the insert gave: the
  trigger computes \<^verbatim>\<open>COALESCE(OLD.error_count, 0) + 1\<close> and an insert has no \<^verbatim>\<open>OLD\<close> row; no
  maximum is read. So after \<open>N\<close> consecutive error appends the sum of \<^verbatim>\<open>error_count\<close> over
  the table is the sum before plus \<open>N\<close>. \<^verbatim>\<open>log_system_event\<close> with status \<^verbatim>\<open>error\<close> stores 1 as
  well.
\<close>

theorem error_count_of_appends:
  assumes "\<forall>r \<in> set rs. row_status r = st_error"
  shows "fold insert_row rs tbl = tbl @ map (\<lambda>r. r\<lparr>error_count := Some 1\<rparr>) rs
       \<and> total_error_count (fold insert_row rs tbl) = total_error_count tbl + int (length rs)
       \<and> snd (log_system_event st_error p_state p_error now tbl)
           = tbl @ [\<lparr>row_status = st_error, last_known_state = COALESCE p_state Empty_object,
                     last_reset_time = None, last_backup_time = None, last_restore_time = None,
                     error_count = Some 1, last_error = p_error\<rparr>]"
proof -
  have rows: "fold insert_row rs tbl = tbl @ map (\<lambda>r. r\<lparr>error_count := Some 1\<rparr>) rs"
    using assms by (rule fold_insert_error_rows)
  have "sum_list (map (\<lambda>r. COALESCE (error_count r) 0) (map (\<lambda>r. r\<lparr>error_count := Some 1\<rparr>) rs))
          = int (length rs)"
    by (induction rs) (simp_all add: COALESCE_def)
  then have total: "total_error_count (fold insert_row rs tbl) = total_error_count tbl + int (length rs)"
    by (simp add: rows total_error_count_def)
  have "snd (log_system_event st_error p_state p_error now tbl)
           = tbl @ [\<lparr>row_status = st_error, last_known_state = COALESCE p_state Empty_object,
                     last_reset_time = None, last_backup_time = None, last_restore_time = None,
                     error_count = Some 1, last_error = p_error\<rparr>]"
    by (simp add: log_system_event_def insert_row_def increment_error_count_def COALESCE_def)
  with rows total show ?thesis by simp
qed

theorem error_count_of_appends_witness:
  "row_status (default_row\<lparr>row_status := st_error, error_count := Some 7\<rparr>) = st_error
   \<and> row_status (default_row\<lparr>row_status := st_error\<rparr>) = st_error
   \<and> fold insert_row [default_row\<lparr>row_status := st_error, error_count := Some 7\<rparr>,
                       default_row\<lparr>row_status := st_error\<rparr>]
        [default_row\<lparr>row_status := st_error, error_count := Some 1\<rparr>]
      = [default_row\<lparr>row_status := st_error, error_count := Some 1\<rparr>,
         default_row\<lparr>row_status := st_error, error_count := Some 1\<rparr>,
         default_row\<lparr>row_status := st_error, error_count := Some 1\<rparr>]
   \<and> total_error_count (fold insert_row [default_row\<lparr>row_status := st_error, error_count := Some 7\<rparr>,
                       default_row\<lparr>row_status := st_error\<rparr>]
        [default_row\<lparr>row_status := st_error, error_count := Some 1\<rparr>]) = 3"
proof -
  have h: "\<forall>r \<in> set [default_row\<lparr>row_status := st_error, error_count := Some 7\<rparr>,
                 default_row\<lparr>row_status := st_error\<rparr>]. row_status r = st_error"
    by simp
  from error_count_of_appends [OF h, of "[default_row\<lparr>row_status := st_error, error_count := Some 1\<rparr>]"]
  show ?thesis by (simp add: total_error_count_def COALESCE_def default_row_def)
qed

lemma select_last_backup_null:
  assumes "r \<in> set tbl" and "last_backup_time r = None"
  shows "select_last_backup tbl = Some None"
proof -
  from assms have "filter (\<lambda>r. last_backup_time r = None) tbl \<noteq> []"
    by (auto simp: filter_empty_conv)
  then obtain x xs where xs: "filter (\<lambda>r. last_backup_time r = None) tbl = x # xs"
    by (cases "filter (\<lambda>r. last_backup_time r = None) tbl") auto
  then have "x \<in> set (filter (\<lambda>r. last_backup_time r = None) tbl)" by simp
  then have "last_backup_time x = None" by simp
  then show ?thesis
    by (simp add: select_last_backup_def order_last_backup_time_desc_def xs single_def)
qed


section \<open>Properties of a tick of the monitor\<close>

subsection \<open>Steps of a tick\<close>

lemma createBackup_state: "state (snd (createBackup cfg env t)) = state t"
  by (simp add: createBackup_def Let_def split: prod.splits)

lemma createBackup_runs: "runs (snd (createBackup cfg env t)) = Suc (runs t)"
  by (simp add: createBackup_def Let_def split: prod.splits)

lemma createBackup_world:
  "world_of (snd (createBackup cfg env t)) = snd (backupDatabase cfg (backups env (runs t)) (world_of t))"
  by (simp add: createBackup_def Let_def split: prod.splits)

lemma createBackup_rows:
  "\<exists>bs. system_status (world_of (snd (createBackup cfg env t))) = system_status (world_of t) @ bs
        \<and> (\<forall>r \<in> set bs. is_backup_row r) \<and> length bs \<le> 1"
proof (cases "success (fst (backupDatabase cfg (backups env (runs t)) (world_of t)))")
  case True
  let ?r = "default_row\<lparr>row_status := st_backup,
               last_known_state := Backup_file (compressedPath (backups env (runs t))),
               last_backup_time := Some (db_timestamp (backups env (runs t)))\<rparr>"
  have "system_status (world_of (snd (createBackup cfg env t))) = system_status (world_of t) @ [?r]"
    using True
    by (simp add: createBackup_world system_status_backupDatabase insert_row_def
        increment_error_count_def)
  moreover have "is_backup_row ?r" by (simp add: is_backup_row_def)
  ultimately show ?thesis by auto
next
  case False
  then have "system_status (world_of (snd (createBackup cfg env t))) = system_status (world_of t) @ []"
    by (simp add: createBackup_world system_status_backupDatabase)
  then show ?thesis by force
qed

lemma handleDataLoss_state: "state (handleDataLoss cfg env t) = state t"
  by (simp add: handleDataLoss_def createBackup_def insert_status_def Let_def
      split: prod.splits option.splits)

lemma handleDataLoss_runs: "runs (handleDataLoss cfg env t) = Suc (runs t)"
  by (simp add: handleDataLoss_def createBackup_def insert_status_def Let_def
      split: prod.splits option.splits)

lemma handleDataLoss_rows:
  "\<exists>bs. system_status (world_of (handleDataLoss cfg env t)) = system_status (world_of t) @ bs
        \<and> (\<forall>r \<in> set bs. is_backup_row r \<or> is_incident_row r) \<and> length bs \<le> 2"
proof -
  obtain e t' where c: "createBackup cfg env t = (e, t')"
    by (cases "createBackup cfg env t") simp
  from createBackup_rows [of cfg env t] c
  obtain bs where bs: "system_status (world_of t') = system_status (world_of t) @ bs"
      "\<forall>r \<in> set bs. is_backup_row r" "length bs \<le> 1"
    by auto
  show ?thesis
  proof (cases e)
    case (Some x)
    then have "handleDataLoss cfg env t = t'" using c by (simp add: handleDataLoss_def)
    with bs show ?thesis by force
  next
    case None
    show ?thesis
    proof (cases "incident_insert env (runs t)")
      case False
      then have "system_status (world_of (handleDataLoss cfg env t)) = system_status (world_of t')"
        using c None by (simp add: handleDataLoss_def insert_status_def)
      with bs show ?thesis by force
    next
      case True
      let ?r = "default_row\<lparr>row_status := st_error,
                   last_known_state := Incident (state t') (incident_timestamp env)\<rparr>"
      have "system_status (world_of (handleDataLoss cfg env t))
              = system_status (world_of t) @ (bs @ [?r\<lparr>error_count := Some 1\<rparr>])"
        using c None True bs(1)
        by (simp add: handleDataLoss_def insert_status_def insert_row_def
            increment_error_count_def COALESCE_def)
      moreover have "is_incident_row (?r\<lparr>error_count := Some 1\<rparr>)"
        by (simp add: is_incident_row_def)
      moreover have "length (bs @ [?r\<lparr>error_count := Some 1\<rparr>]) \<le> 2" using bs(3) by simp
      ultimately show ?thesis
        using bs(2) by (intro exI [of _ "bs @ [?r\<lparr>error_count := Some 1\<rparr>]"]) auto
    qed
  qed
qed

lemma check_table_warnings:
  "warnings (state (check_table cfg env known table t))
     = warnings (state t) @ table_warning known env table"
  by (simp add: check_table_def table_warning_def Let_def push_error_def push_warning_def
      handleDataLoss_state split: option.splits)

lemma check_table_errors:
  "errors (state (check_table cfg env known table t))
     = errors (state t) @ table_error env table"
  by (simp add: check_table_def table_error_def Let_def push_error_def push_warning_def
      handleDataLoss_state split: option.splits)

lemma check_table_status:
  "status (state (check_table cfg env known table t))
     = (if table_warning known env table = [] then status (state t) else Warning)"
  by (simp add: check_table_def table_warning_def Let_def push_error_def push_warning_def
      handleDataLoss_state split: option.splits)

lemma check_table_runs:
  "runs (check_table cfg env known table t) = runs t + length (table_warning known env table)"
  by (simp add: check_table_def table_warning_def Let_def push_error_def push_warning_def
      handleDataLoss_runs split: option.splits)

lemma check_table_tables:
  "tables (state (check_table cfg env known table t))
     = (case count_error (select_count env table) of
          Some m \<Rightarrow> tables (state t)
        | None \<Rightarrow> (tables (state t))(table \<mapsto> COALESCE (count (select_count env table)) 0))"
  by (simp add: check_table_def Let_def push_error_def push_warning_def
      handleDataLoss_state split: option.splits)

lemma check_table_rows:
  "\<exists>bs. system_status (world_of (check_table cfg env known table t))
            = system_status (world_of t) @ bs
        \<and> (\<forall>r \<in> set bs. is_backup_row r \<or> is_incident_row r)
        \<and> length bs \<le> 2 * length (table_warning known env table)"
proof (cases "table_warning known env table = []")
  case True
  then have "world_of (check_table cfg env known table t) = world_of t"
    by (auto simp: check_table_def table_warning_def Let_def push_error_def
        split: option.splits if_splits)
  then show ?thesis by simp
next
  case False
  then obtain p c where pc: "count_error (select_count env table) = None"
      "Option.bind known (\<lambda>s. tables s table) = Some p" "count (select_count env table) = Some c"
      "p \<noteq> 0 \<and> data_loss p c"
    by (auto simp: table_warning_def split: option.splits if_splits)
  then have tw: "table_warning known env table = [loss_warning table p c]"
    by (simp add: table_warning_def)
  define t2 where "t2 = push_warning (loss_warning table p c)
       (t\<lparr>state := (state t)\<lparr>tables := (tables (state t))(table \<mapsto> COALESCE (Some c) 0)\<rparr>\<rparr>)"
  have w2: "world_of (t2\<lparr>state := (state t2)\<lparr>status := Warning\<rparr>\<rparr>) = world_of t"
    by (simp add: t2_def push_warning_def)
  have "check_table cfg env known table t
          = handleDataLoss cfg env (t2\<lparr>state := (state t2)\<lparr>status := Warning\<rparr>\<rparr>)"
    using pc by (simp add: check_table_def Let_def t2_def)
  with handleDataLoss_rows [of cfg env "t2\<lparr>state := (state t2)\<lparr>status := Warning\<rparr>\<rparr>"] w2
  show ?thesis by (simp add: tw)
qed

subsection \<open>The loop\<close>

lemma check_tables_warnings:
  "warnings (state (check_tables cfg env known ts t))
     = warnings (state t) @ concat (map (table_warning known env) ts)"
  by (induction ts arbitrary: t) (simp_all add: check_table_warnings)

lemma check_tables_errors:
  "errors (state (check_tables cfg env known ts t))
     = errors (state t) @ concat (map (table_error env) ts)"
  by (induction ts arbitrary: t) (simp_all add: check_table_errors)

lemma check_tables_status:
  "status (state (check_tables cfg env known ts t))
     = (if concat (map (table_warning known env) ts) = [] then status (state t) else Warning)"
  by (induction ts arbitrary: t) (simp_all add: check_table_status)

lemma check_tables_runs:
  "runs (check_tables cfg env known ts t)
     = runs t + length (concat (map (table_warning known env) ts))"
  by (induction ts arbitrary: t) (simp_all add: check_table_runs)

lemma check_tables_tables:
  "table \<in> set ts \<Longrightarrow> count_error (select_count env table) = None \<Longrightarrow>
   tables (state (check_tables cfg env known ts t)) table
     = Some (COALESCE (count (select_count env table)) 0)"
proof (induction ts arbitrary: t)
  case Nil
  then show ?case by simp
next
  case (Cons a ts)
  have keep: "tables (state (check_tables cfg env known ts u)) table = Some v"
    if "tables (state u) table = Some v" "table \<notin> set ts" for u v
    using that
  proof (induction ts arbitrary: u)
    case Nil
    then show ?case by simp
  next
    case (Cons b ts)
    have "tables (state (check_table cfg env known b u)) table = Some v"
      using Cons.prems by (auto simp: check_table_tables split: option.splits)
    then show ?case using Cons by simp
  qed
  show ?case
  proof (cases "table \<in> set ts")
    case True
    then show ?thesis using Cons by simp
  next
    case False
    then have "a = table" using Cons.prems by simp
    then have "tables (state (check_table cfg env known a t)) table
        = Some (COALESCE (count (select_count env table)) 0)"
      using Cons.prems(2) by (simp add: check_table_tables)
    then show ?thesis using keep False by simp
  qed
qed

lemma check_tables_rows:
  "\<exists>bs. system_status (world_of (check_tables cfg env known ts t))
            = system_status (world_of t) @ bs
        \<and> (\<forall>r \<in> set bs. is_backup_row r \<or> is_incident_row r)
        \<and> length bs \<le> 2 * length (concat (map (table_warning known env) ts))"
proof (induction ts arbitrary: t)
  case Nil
  then show ?case by simp
next
  case (Cons a ts)
  from check_table_rows [of cfg env known a t]
  obtain bs1 where b1: "system_status (world_of (check_table cfg env known a t))
            = system_status (world_of t) @ bs1"
      "\<forall>r \<in> set bs1. is_backup_row r \<or> is_incident_row r"
      "length bs1 \<le> 2 * length (table_warning known env a)"
    by blast
  from Cons.IH [of "check_table cfg env known a t"]
  obtain bs2 where b2: "system_status (world_of (check_tables cfg env known ts (check_table cfg env known a t)))
            = system_status (world_of (check_table cfg env known a t)) @ bs2"
      "\<forall>r \<in> set bs2. is_backup_row r \<or> is_incident_row r"
      "length bs2 \<le> 2 * length (concat (map (table_warning known env) ts))"
    by blast
  have "system_status (world_of (check_tables cfg env known (a # ts) t))
          = system_status (world_of t) @ (bs1 @ bs2)"
    using b1(1) b2(1) by simp
  moreover have "\<forall>r \<in> set (bs1 @ bs2). is_backup_row r \<or> is_incident_row r"
    using b1(2) b2(2) by auto
  moreover have "length (bs1 @ bs2) \<le> 2 * length (concat (map (table_warning known env) (a # ts)))"
    using b1(3) b2(3) by simp
  ultimately show ?case by blast
qed

subsection \<open>The check of the last backup\<close>

lemma check_backup_summary:
  "\<exists>ws bs. warnings (state (snd (check_backup cfg env t))) = warnings (state t) @ ws
      \<and> (ws = [] \<or> ws = [''No recent backup found (>24 hours)''] \<or> ws = [''No backup history found''])
      \<and> errors (state (snd (check_backup cfg env t))) = errors (state t)
      \<and> status (state (snd (check_backup cfg env t))) = status (state t)
      \<and> tables (state (snd (check_backup cfg env t))) = tables (state t)
      \<and> runs (snd (check_backup cfg env t)) = runs t + length ws
      \<and> (ws = [] \<longrightarrow> fst (check_backup cfg env t) = None)
      \<and> system_status (world_of (snd (check_backup cfg env t))) = system_status (world_of t) @ bs
      \<and> (\<forall>r \<in> set bs. is_backup_row r) \<and> length bs \<le> length ws"
proof -
  have run: "\<exists>bs. warnings (state (snd (createBackup cfg env (push_warning m u)))) = warnings (state u) @ [m]
      \<and> errors (state (snd (createBackup cfg env (push_warning m u)))) = errors (state u)
      \<and> status (state (snd (createBackup cfg env (push_warning m u)))) = status (state u)
      \<and> tables (state (snd (createBackup cfg env (push_warning m u)))) = tables (state u)
      \<and> runs (snd (createBackup cfg env (push_warning m u))) = runs u + length [m]
      \<and> system_status (world_of (snd (createBackup cfg env (push_warning m u))))
           = system_status (world_of u) @ bs
      \<and> (\<forall>r \<in> set bs. is_backup_row r) \<and> length bs \<le> length [m]" for m u
  proof -
    from createBackup_rows [of cfg env "push_warning m u"]
    obtain bs where "system_status (world_of (snd (createBackup cfg env (push_warning m u))))
           = system_status (world_of (push_warning m u)) @ bs"
        "\<forall>r \<in> set bs. is_backup_row r" "length bs \<le> 1"
      by blast
    then show ?thesis
      by (intro exI [of _ bs]) (simp add: createBackup_state createBackup_runs push_warning_def)
  qed
  show ?thesis
  proof (cases "select_last_backup (system_status (world_of t))")
    case None
    then have cb: "check_backup cfg env t = createBackup cfg env (push_warning ''No backup history found'' t)"
      by (simp add: check_backup_def)
    from run [of "''No backup history found''" t] obtain bs where
      "warnings (state (snd (check_backup cfg env t))) = warnings (state t) @ [''No backup history found'']
      \<and> errors (state (snd (check_backup cfg env t))) = errors (state t)
      \<and> status (state (snd (check_backup cfg env t))) = status (state t)
      \<and> tables (state (snd (check_backup cfg env t))) = tables (state t)
      \<and> runs (snd (check_backup cfg env t)) = runs t + length [''No backup history found'']
      \<and> system_status (world_of (snd (check_backup cfg env t))) = system_status (world_of t) @ bs
      \<and> (\<forall>r \<in> set bs. is_backup_row r) \<and> length bs \<le> length [''No backup history found'']"
      unfolding cb by blast
    then show ?thesis
      by (intro exI [of _ "[''No backup history found'']"] exI [of _ bs]) simp
  next
    case (Some v)
    show ?thesis
    proof (cases v)
      case None
      with Some have cb: "check_backup cfg env t = createBackup cfg env (push_warning ''No backup history found'' t)"
        by (simp add: check_backup_def)
      from run [of "''No backup history found''" t] obtain bs where
        "warnings (state (snd (check_backup cfg env t))) = warnings (state t) @ [''No backup history found'']
        \<and> errors (state (snd (check_backup cfg env t))) = errors (state t)
        \<and> status (state (snd (check_backup cfg env t))) = status (state t)
        \<and> tables (state (snd (check_backup cfg env t))) = tables (state t)
        \<and> runs (snd (check_backup cfg env t)) = runs t + length [''No backup history found'']
        \<and> system_status (world_of (snd (check_backup cfg env t))) = system_status (world_of t) @ bs
        \<and> (\<forall>r \<in> set bs. is_backup_row r) \<and> length bs \<le> length [''No backup history found'']"
        unfolding cb by blast
      then show ?thesis
        by (intro exI [of _ "[''No backup history found'']"] exI [of _ bs]) simp
    next
      case (Some ts)
      define t1 where "t1 = t\<lparr>state := (state t)\<lparr>lastBackup := Some ts\<rparr>\<rparr>"
      show ?thesis
      proof (cases "age_now env - ts > 24 * 60 * 60 * 1000")
        case True
        with Some \<open>select_last_backup (system_status (world_of t)) = Some v\<close>
        have cb: "check_backup cfg env t
            = createBackup cfg env (push_warning ''No recent backup found (>24 hours)'' t1)"
          by (simp add: check_backup_def t1_def Let_def)
        from run [of "''No recent backup found (>24 hours)''" t1] obtain bs where
          "warnings (state (snd (check_backup cfg env t))) = warnings (state t1) @ [''No recent backup found (>24 hours)'']
          \<and> errors (state (snd (check_backup cfg env t))) = errors (state t1)
          \<and> status (state (snd (check_backup cfg env t))) = status (state t1)
          \<and> tables (state (snd (check_backup cfg env t))) = tables (state t1)
          \<and> runs (snd (check_backup cfg env t)) = runs t1 + length [''No recent backup found (>24 hours)'']
          \<and> system_status (world_of (snd (check_backup cfg env t))) = system_status (world_of t1) @ bs
          \<and> (\<forall>r \<in> set bs. is_backup_row r) \<and> length bs \<le> length [''No recent backup found (>24 hours)'']"
          unfolding cb by blast
        then show ?thesis
          by (intro exI [of _ "[''No recent backup found (>24 hours)'']"] exI [of _ bs])
             (simp add: t1_def)
      next
        case False
        with Some \<open>select_last_backup (system_status (world_of t)) = Some v\<close>
        have cb: "check_backup cfg env t = (None, t1)"
          by (simp add: check_backup_def t1_def Let_def)
        show ?thesis
          by (intro exI [of _ "[]"]) (simp add: cb t1_def)
      qed
    qed
  qed
qed

subsection \<open>The whole tick\<close>

lemma rows_updateSystemStatus:
  "system_status (updateSystemStatus env st w)
     = system_status w
         @ (if audit_insert env then [increment_error_count None (status_record st)] else [])"
  by (simp add: updateSystemStatus_def insert_status_def insert_row_def)

lemma checkSystem_summary:
  "\<exists>ws bs.
      (ws = [] \<or> ws = [''No recent backup found (>24 hours)''] \<or> ws = [''No backup history found''])
    \<and> warnings (snapshot (checkSystem cfg env known w))
        = (if version_error env = None
           then concat (map (table_warning known env) CRITICAL_TABLES) else []) @ ws
    \<and> backup_runs (checkSystem cfg env known w) = length (warnings (snapshot (checkSystem cfg env known w)))
    \<and> status (snapshot (checkSystem cfg env known w))
        = (if errors (snapshot (checkSystem cfg env known w)) \<noteq> [] then Error
           else if warnings (snapshot (checkSystem cfg env known w)) \<noteq> [] then Warning
           else Healthy)
    \<and> system_status (final_world (checkSystem cfg env known w))
        = system_status w @ bs
            @ (if audit_insert env
               then [increment_error_count None
                       (status_record (snapshot (checkSystem cfg env known w)))]
               else [])
    \<and> (\<forall>r \<in> set bs. is_backup_row r \<or> is_incident_row r)
    \<and> length bs \<le> 2 * backup_runs (checkSystem cfg env known w)
    \<and> (caught (checkSystem cfg env known w) = None \<longrightarrow>
          lastKnownState (checkSystem cfg env known w) = Some (snapshot (checkSystem cfg env known w)))
    \<and> (caught (checkSystem cfg env known w) \<noteq> None \<longrightarrow>
          lastKnownState (checkSystem cfg env known w) = known
          \<and> errors (snapshot (checkSystem cfg env known w)) \<noteq> [])
    \<and> (version_error env \<noteq> None \<longrightarrow> caught (checkSystem cfg env known w) = version_error env)
    \<and> errors (snapshot (checkSystem cfg env known w))
        = (if version_error env = None
           then concat (map (table_error env) CRITICAL_TABLES) else [])
          @ (case caught (checkSystem cfg env known w) of
               None \<Rightarrow> [] | Some e \<Rightarrow> [message_or ''Unknown error'' e])
    \<and> (version_error env = None \<longrightarrow>
          (\<forall>table \<in> set CRITICAL_TABLES. count_error (select_count env table) = None \<longrightarrow>
             tables (snapshot (checkSystem cfg env known w)) table
               = Some (COALESCE (count (select_count env table)) 0)))"
proof (cases "version_error env")
  case (Some e)
  then have out: "checkSystem cfg env known w
      = catch_block env e known \<lparr>state = initial_state env, world_of = w, runs = 0\<rparr>"
    by (simp add: checkSystem_def)
  show ?thesis
    by (intro exI [of _ "[]"])
       (simp add: out Some catch_block_def Let_def initial_state_def rows_updateSystemStatus)
next
  case None
  define t0 where "t0 = \<lparr>state = initial_state env, world_of = w, runs = 0\<rparr>"
  define t1 where "t1 = check_tables cfg env known CRITICAL_TABLES t0"
  define lw where "lw = concat (map (table_warning known env) CRITICAL_TABLES)"
  obtain e t2 where cb: "check_backup cfg env t1 = (e, t2)"
    by (cases "check_backup cfg env t1") simp
  have w1: "warnings (state t1) = lw"
    by (simp add: t1_def lw_def check_tables_warnings t0_def initial_state_def)
  have s1: "status (state t1) = (if lw = [] then Healthy else Warning)"
    by (simp add: t1_def lw_def check_tables_status t0_def initial_state_def)
  have r1: "runs t1 = length lw"
    by (simp add: t1_def lw_def check_tables_runs t0_def)
  have e1: "errors (state t1) = concat (map (table_error env) CRITICAL_TABLES)"
    by (simp add: t1_def check_tables_errors t0_def initial_state_def)
  have tb1: "\<forall>table \<in> set CRITICAL_TABLES. count_error (select_count env table) = None \<longrightarrow>
             tables (state t1) table = Some (COALESCE (count (select_count env table)) 0)"
    by (simp add: t1_def check_tables_tables)
  from check_tables_rows [of cfg env known CRITICAL_TABLES t0]
  obtain bs1 where b1: "system_status (world_of t1) = system_status w @ bs1"
      "\<forall>r \<in> set bs1. is_backup_row r \<or> is_incident_row r" "length bs1 \<le> 2 * length lw"
    unfolding t1_def [symmetric] lw_def [symmetric] by (auto simp: t0_def)
  from check_backup_summary [of cfg env t1] cb
  obtain ws bs2 where b2: "warnings (state t2) = warnings (state t1) @ ws"
      "ws = [] \<or> ws = [''No recent backup found (>24 hours)''] \<or> ws = [''No backup history found'']"
      "errors (state t2) = errors (state t1)" "status (state t2) = status (state t1)"
      "tables (state t2) = tables (state t1)" "runs t2 = runs t1 + length ws"
      "ws = [] \<longrightarrow> e = None"
      "system_status (world_of t2) = system_status (world_of t1) @ bs2"
      "\<forall>r \<in> set bs2. is_backup_row r" "length bs2 \<le> length ws"
    by auto
  have rows2: "system_status (world_of t2) = system_status w @ (bs1 @ bs2)"
    using b1(1) b2(8) by simp
  have side: "\<forall>r \<in> set (bs1 @ bs2). is_backup_row r \<or> is_incident_row r"
    using b1(2) b2(9) by auto
  have len: "length (bs1 @ bs2) \<le> 2 * (length lw + length ws)"
    using b1(3) b2(10) by simp
  have w2: "warnings (state t2) = lw @ ws" using b2(1) w1 by simp
  have s2: "warnings (state t2) = [] \<longrightarrow> status (state t2) = Healthy"
    using w2 s1 b2(4) by simp
  have r2: "runs t2 = length (lw @ ws)" using b2(6) r1 by simp
  have e2: "errors (state t2) = concat (map (table_error env) CRITICAL_TABLES)"
    using b2(3) e1 by simp
  have tb2: "\<forall>table \<in> set CRITICAL_TABLES. count_error (select_count env table) = None \<longrightarrow>
             tables (state t2) table = Some (COALESCE (count (select_count env table)) 0)"
    using tb1 b2(5) by simp
  show ?thesis
  proof (cases e)
    case (Some x)
    then have out: "checkSystem cfg env known w = catch_block env x known t2"
      using None cb by (simp add: checkSystem_def t0_def t1_def Let_def)
    show ?thesis
      using b2(2) w2 r2 rows2 side len tb2 e2
      by (intro exI [of _ ws] exI [of _ "bs1 @ bs2"])
         (simp add: out None catch_block_def Let_def rows_updateSystemStatus lw_def)
  next
    case none: None
    define st where "st = (state t2)\<lparr>status :=
                            (if errors (state t2) \<noteq> [] then Error
                             else if warnings (state t2) \<noteq> [] then Warning
                             else status (state t2))\<rparr>"
    have out: "checkSystem cfg env known w =
        \<lparr>lastKnownState = Some st, final_world = updateSystemStatus env st (world_of t2),
         snapshot = st, caught = None, backup_runs = runs t2\<rparr>"
      using None none cb by (simp add: checkSystem_def t0_def t1_def Let_def st_def)
    have st_status: "status st = (if errors st \<noteq> [] then Error
           else if warnings st \<noteq> [] then Warning else Healthy)"
      using s2 by (simp add: st_def)
    have st_w: "warnings st = lw @ ws" and st_tb: "tables st = tables (state t2)"
      and st_e: "errors st = concat (map (table_error env) CRITICAL_TABLES)"
      using w2 e2 by (simp_all add: st_def)
    show ?thesis
      using b2(2) st_w r2 rows2 side len tb2 st_status st_e
      by (intro exI [of _ ws] exI [of _ "bs1 @ bs2"])
         (simp add: out None rows_updateSystemStatus lw_def st_tb)
  qed
qed


subsection \<open>What a tick leaves\<close>

lemma tick_status:
  "status (snapshot (checkSystem cfg env known w))
        = (if errors (snapshot (checkSystem cfg env known w)) \<noteq> [] then Error
           else if warnings (snapshot (checkSystem cfg env known w)) \<noteq> [] then Warning
           else Healthy)"
  using checkSystem_summary [of cfg env known w] by blast

lemma tick_errors:
  "errors (snapshot (checkSystem cfg env known w))
        = (if version_error env = None
           then concat (map (table_error env) CRITICAL_TABLES) else [])
          @ (case caught (checkSystem cfg env known w) of
               None \<Rightarrow> [] | Some e \<Rightarrow> [message_or ''Unknown error'' e])"
  using checkSystem_summary [of cfg env known w] by blast

lemma tick_runs:
  "backup_runs (checkSystem cfg env known w) = length (warnings (snapshot (checkSystem cfg env known w)))"
  using checkSystem_summary [of cfg env known w] by blast

lemma tick_baseline:
  "(caught (checkSystem cfg env known w) = None \<longrightarrow>
          lastKnownState (checkSystem cfg env known w) = Some (snapshot (checkSystem cfg env known w)))
    \<and> (caught (checkSystem cfg env known w) \<noteq> None \<longrightarrow>
          lastKnownState (checkSystem cfg env known w) = known
          \<and> errors (snapshot (checkSystem cfg env known w)) \<noteq> [])"
  using checkSystem_summary [of cfg env known w] by blast

lemma tick_rows:
  "\<exists>bs. system_status (final_world (checkSystem cfg env known w))
        = system_status w @ bs
            @ (if audit_insert env
               then [increment_error_count None
                       (status_record (snapshot (checkSystem cfg env known w)))]
               else [])
    \<and> (\<forall>r \<in> set bs. is_backup_row r \<or> is_incident_row r)
    \<and> length bs \<le> 2 * backup_runs (checkSystem cfg env known w)"
  using checkSystem_summary [of cfg env known w] by blast

lemma tick_warnings:
  "\<exists>ws. (ws = [] \<or> ws = [''No recent backup found (>24 hours)''] \<or> ws = [''No backup history found''])
    \<and> warnings (snapshot (checkSystem cfg env known w))
        = (if version_error env = None
           then concat (map (table_warning known env) CRITICAL_TABLES) else []) @ ws"
  using checkSystem_summary [of cfg env known w] by blast

lemma tick_tables:
  "version_error env = None \<Longrightarrow> table \<in> set CRITICAL_TABLES \<Longrightarrow>
   count_error (select_count env table) = None \<Longrightarrow>
   tables (snapshot (checkSystem cfg env known w)) table
               = Some (COALESCE (count (select_count env table)) 0)"
  using checkSystem_summary [of cfg env known w] by blast

lemma audit_row_status:
  "row_status (increment_error_count None (status_record st))
     = (if status st = Healthy then st_initialized else st_error)"
  "last_known_state (increment_error_count None (status_record st)) = State st"
  by (simp_all add: increment_error_count_def status_record_def)

lemma tick_caught:
  "caught (checkSystem cfg env known w)
     = (case version_error env of
          Some e \<Rightarrow> Some e
        | None \<Rightarrow> fst (check_backup cfg env (check_tables cfg env known CRITICAL_TABLES
                        \<lparr>state = initial_state env, world_of = w, runs = 0\<rparr>)))"
  by (simp add: checkSystem_def catch_block_def Let_def split: option.splits prod.splits)

text \<open>The equations that evaluate a tick on a given input.\<close>

lemmas tick_eval =
  checkSystem_def CRITICAL_TABLES_def check_table_def initial_state_def Let_def
  data_loss_def threshold_def push_warning_def push_error_def handleDataLoss_def createBackup_def
  backupDatabase_def backup_failed_def message_or_def exec_dump_def write_file_def
  compressedPath_def existsSync_def
  statSync_size_def cleanOldBackups_def backup_files_def endsWith_def slice_def
  retentionMs_def unlinkSync_def insert_status_def insert_row_def increment_error_count_def
  default_row_def check_backup_def select_last_backup_def order_last_backup_time_desc_def
  single_def updateSystemStatus_def status_record_def COALESCE_def catch_block_def


section \<open>The status of the snapshot, the baseline and the last backup\<close>

text \<open>
  Claim C6. The status of the snapshot of a tick is \<^verbatim>\<open>error\<close> whenever its list of errors is
  not empty, whatever the counts and the warnings are; with no error it is \<^verbatim>\<open>warning\<close> when
  there is a warning, and \<^verbatim>\<open>healthy\<close> otherwise.
\<close>

theorem errors_force_error_status:
  "(errors (snapshot (checkSystem cfg env known w)) \<noteq> [] \<longrightarrow>
      status (snapshot (checkSystem cfg env known w)) = Error)
   \<and> (errors (snapshot (checkSystem cfg env known w)) = []
        \<and> warnings (snapshot (checkSystem cfg env known w)) \<noteq> [] \<longrightarrow>
      status (snapshot (checkSystem cfg env known w)) = Warning)
   \<and> (errors (snapshot (checkSystem cfg env known w)) = []
        \<and> warnings (snapshot (checkSystem cfg env known w)) = [] \<longrightarrow>
      status (snapshot (checkSystem cfg env known w)) = Healthy)"
  by (simp add: tick_status)

theorem errors_force_error_status_witness:
  "errors (snapshot (checkSystem \<lparr>MAX_BACKUPS = 5, RETENTION_DAYS = 7\<rparr>
     \<lparr>check_date = 5000, version_error = None,
      select_count = (\<lambda>t. if t = ''schools'' then \<lparr>count = None, count_error = Some ''timeout''\<rparr>
                           else \<lparr>count = Some 50, count_error = None\<rparr>),
      incident_timestamp = ''I'', age_now = 5000,
      incident_insert = (\<lambda>k. True), audit_insert = True,
      backups = (\<lambda>k. \<lparr>env_timestamp = ''T'', dump_written = None, dump_mtime = 5000,
           dump_thrown = Some (JsError ''pg_dump failed''), sweep_now = 5000,
           psql_thrown = None, db_timestamp = 5000\<rparr>)\<rparr>
     (Some \<lparr>status = Healthy, lastCheck = 0, tables = [''user_profiles'' \<mapsto> 100],
            lastBackup = None, warnings = [], errors = []\<rparr>)
     \<lparr>dir = [], system_status = []\<rparr>)) \<noteq> []
   \<and> warnings (snapshot (checkSystem \<lparr>MAX_BACKUPS = 5, RETENTION_DAYS = 7\<rparr>
     \<lparr>check_date = 5000, version_error = None,
      select_count = (\<lambda>t. if t = ''schools'' then \<lparr>count = None, count_error = Some ''timeout''\<rparr>
                           else \<lparr>count = Some 50, count_error = None\<rparr>),
      incident_timestamp = ''I'', age_now = 5000,
      incident_insert = (\<lambda>k. True), audit_insert = True,
      backups = (\<lambda>k. \<lparr>env_timestamp = ''T'', dump_written = None, dump_mtime = 5000,
           dump_thrown = Some (JsError ''pg_dump failed''), sweep_now = 5000,
           psql_thrown = None, db_timestamp = 5000\<rparr>)\<rparr>
     (Some \<lparr>status = Healthy, lastCheck = 0, tables = [''user_profiles'' \<mapsto> 100],
            lastBackup = None, warnings = [], errors = []\<rparr>)
     \<lparr>dir = [], system_status = []\<rparr>)) \<noteq> []
   \<and> status (snapshot (checkSystem \<lparr>MAX_BACKUPS = 5, RETENTION_DAYS = 7\<rparr>
     \<lparr>check_date = 5000, version_error = None,
      select_count = (\<lambda>t. if t = ''schools'' then \<lparr>count = None, count_error = Some ''timeout''\<rparr>
                           else \<lparr>count = Some 50, count_error = None\<rparr>),
      incident_timestamp = ''I'', age_now = 5000,
      incident_insert = (\<lambda>k. True), audit_insert = True,
      backups = (\<lambda>k. \<lparr>env_timestamp = ''T'', dump_written = None, dump_mtime = 5000,
           dump_thrown = Some (JsError ''pg_dump failed''), sweep_now = 5000,
           psql_thrown = None, db_timestamp = 5000\<rparr>)\<rparr>
     (Some \<lparr>status = Healthy, lastCheck = 0, tables = [''user_profiles'' \<mapsto> 100],
            lastBackup = None, warnings = [], errors = []\<rparr>)
     \<lparr>dir = [], system_status = []\<rparr>)) = Error"
proof -
  let ?cfg = "\<lparr>MAX_BACKUPS = 5, RETENTION_DAYS = 7\<rparr>"
  let ?env = "\<lparr>check_date = 5000, version_error = None,
      select_count = (\<lambda>t. if t = ''schools'' then \<lparr>count = None, count_error = Some ''timeout''\<rparr>
                           else \<lparr>count = Some 50, count_error = None\<rparr>),
      incident_timestamp = ''I'', age_now = 5000,
      incident_insert = (\<lambda>k. True), audit_insert = True,
      backups = (\<lambda>k. \<lparr>env_timestamp = ''T'', dump_written = None, dump_mtime = 5000,
           dump_thrown = Some (JsError ''pg_dump failed''), sweep_now = 5000,
           psql_thrown = None, db_timestamp = 5000\<rparr>)\<rparr>"
  let ?known = "Some \<lparr>status = Healthy, lastCheck = 0, tables = [''user_profiles'' \<mapsto> 100],
            lastBackup = None, warnings = [], errors = []\<rparr>"
  let ?w = "\<lparr>dir = [], system_status = []\<rparr>"
  have e: "errors (snapshot (checkSystem ?cfg ?env ?known ?w)) \<noteq> []"
    by (simp add: tick_errors table_error_def CRITICAL_TABLES_def)
  from tick_warnings [of ?cfg ?env ?known ?w]
  have w: "warnings (snapshot (checkSystem ?cfg ?env ?known ?w)) \<noteq> []"
    by (auto simp: table_warning_def CRITICAL_TABLES_def data_loss_def threshold_def)
  from errors_force_error_status [of ?cfg ?env ?known ?w] e w
  show ?thesis by simp
qed

text \<open>
  Claim C4, as stated, fails: on a tick whose \<^verbatim>\<open>version\<close> call fails, the handler of
  \<^verbatim>\<open>checkSystem\<close> records the error state and leaves \<^verbatim>\<open>lastKnownState\<close> as it was.
\<close>

theorem baseline_kept_on_connectivity_error_counterexample:
  "lastKnownState (checkSystem \<lparr>MAX_BACKUPS = 5, RETENTION_DAYS = 7\<rparr>
     \<lparr>check_date = 5000, version_error = Some (JsError ''connection refused''),
      select_count = (\<lambda>t. \<lparr>count = Some 50, count_error = None\<rparr>),
      incident_timestamp = ''I'', age_now = 5000,
      incident_insert = (\<lambda>k. True), audit_insert = True,
      backups = (\<lambda>k. \<lparr>env_timestamp = ''T'', dump_written = None, dump_mtime = 5000,
           dump_thrown = Some (JsError ''pg_dump failed''), sweep_now = 5000,
           psql_thrown = None, db_timestamp = 5000\<rparr>)\<rparr>
     (Some \<lparr>status = Healthy, lastCheck = 0, tables = [''user_profiles'' \<mapsto> 100],
            lastBackup = None, warnings = [], errors = []\<rparr>)
     \<lparr>dir = [], system_status = []\<rparr>)
   = Some \<lparr>status = Healthy, lastCheck = 0, tables = [''user_profiles'' \<mapsto> 100],
            lastBackup = None, warnings = [], errors = []\<rparr>
   \<and> snapshot (checkSystem \<lparr>MAX_BACKUPS = 5, RETENTION_DAYS = 7\<rparr>
     \<lparr>check_date = 5000, version_error = Some (JsError ''connection refused''),
      select_count = (\<lambda>t. \<lparr>count = Some 50, count_error = None\<rparr>),
      incident_timestamp = ''I'', age_now = 5000,
      incident_insert = (\<lambda>k. True), audit_insert = True,
      backups = (\<lambda>k. \<lparr>env_timestamp = ''T'', dump_written = None, dump_mtime = 5000,
           dump_thrown = Some (JsError ''pg_dump failed''), sweep_now = 5000,
           psql_thrown = None, db_timestamp = 5000\<rparr>)\<rparr>
     (Some \<lparr>status = Healthy, lastCheck = 0, tables = [''user_profiles'' \<mapsto> 100],
            lastBackup = None, warnings = [], errors = []\<rparr>)
     \<lparr>dir = [], system_status = []\<rparr>)
   = \<lparr>status = Error, lastCheck = 5000, tables = Map.empty, lastBackup = None,
      warnings = [], errors = [''connection refused'']\<rparr>"
  by (simp add: checkSystem_def catch_block_def Let_def initial_state_def message_or_def)

text \<open>
  Claim C4, amended. A tick that reaches the end of the \<^verbatim>\<open>try\<close> block replaces
  \<^verbatim>\<open>lastKnownState\<close> with its snapshot, after the call of \<^verbatim>\<open>updateSystemStatus\<close>, also when the status of the
  snapshot is \<^verbatim>\<open>error\<close> because a count failed. A tick that ends in the handler (the
  \<^verbatim>\<open>version\<close> call failed, or the backup of the last backup check failed) has status
  \<^verbatim>\<open>error\<close> and leaves \<^verbatim>\<open>lastKnownState\<close> unchanged.
\<close>

theorem baseline_replaced_unless_caught:
  "(caught (checkSystem cfg env known w) = None \<longrightarrow>
      lastKnownState (checkSystem cfg env known w) = Some (snapshot (checkSystem cfg env known w)))
   \<and> (caught (checkSystem cfg env known w) \<noteq> None \<longrightarrow>
      lastKnownState (checkSystem cfg env known w) = known
      \<and> status (snapshot (checkSystem cfg env known w)) = Error)
   \<and> caught (checkSystem cfg env known w)
       = (case version_error env of
            Some e \<Rightarrow> Some e
          | None \<Rightarrow> fst (check_backup cfg env (check_tables cfg env known CRITICAL_TABLES
                        \<lparr>state = initial_state env, world_of = w, runs = 0\<rparr>)))"
  using tick_baseline [of cfg env known w] tick_status [of cfg env known w]
    tick_caught [of cfg env known w]
  by simp

theorem baseline_replaced_unless_caught_witness:
  "caught (checkSystem \<lparr>MAX_BACKUPS = 5, RETENTION_DAYS = 7\<rparr>
     \<lparr>check_date = 5000, version_error = None,
      select_count = (\<lambda>t. \<lparr>count = None, count_error = Some ''timeout''\<rparr>),
      incident_timestamp = ''I'', age_now = 5000,
      incident_insert = (\<lambda>k. True), audit_insert = True,
      backups = (\<lambda>k. \<lparr>env_timestamp = ''T'', dump_written = None, dump_mtime = 5000,
           dump_thrown = Some (JsError ''pg_dump failed''), sweep_now = 5000,
           psql_thrown = None, db_timestamp = 5000\<rparr>)\<rparr>
     None
     \<lparr>dir = [], system_status = [default_row\<lparr>row_status := st_backup,
             last_backup_time := Some 4000\<rparr>]\<rparr>) = None
   \<and> status (snapshot (checkSystem \<lparr>MAX_BACKUPS = 5, RETENTION_DAYS = 7\<rparr>
     \<lparr>check_date = 5000, version_error = None,
      select_count = (\<lambda>t. \<lparr>count = None, count_error = Some ''timeout''\<rparr>),
      incident_timestamp = ''I'', age_now = 5000,
      incident_insert = (\<lambda>k. True), audit_insert = True,
      backups = (\<lambda>k. \<lparr>env_timestamp = ''T'', dump_written = None, dump_mtime = 5000,
           dump_thrown = Some (JsError ''pg_dump failed''), sweep_now = 5000,
           psql_thrown = None, db_timestamp = 5000\<rparr>)\<rparr>
     None
     \<lparr>dir = [], system_status = [default_row\<lparr>row_status := st_backup,
             last_backup_time := Some 4000\<rparr>]\<rparr>)) = Error
   \<and> lastKnownState (checkSystem \<lparr>MAX_BACKUPS = 5, RETENTION_DAYS = 7\<rparr>
     \<lparr>check_date = 5000, version_error = None,
      select_count = (\<lambda>t. \<lparr>count = None, count_error = Some ''timeout''\<rparr>),
      incident_timestamp = ''I'', age_now = 5000,
      incident_insert = (\<lambda>k. True), audit_insert = True,
      backups = (\<lambda>k. \<lparr>env_timestamp = ''T'', dump_written = None, dump_mtime = 5000,
           dump_thrown = Some (JsError ''pg_dump failed''), sweep_now = 5000,
           psql_thrown = None, db_timestamp = 5000\<rparr>)\<rparr>
     None
     \<lparr>dir = [], system_status = [default_row\<lparr>row_status := st_backup,
             last_backup_time := Some 4000\<rparr>]\<rparr>)
     = Some (snapshot (checkSystem \<lparr>MAX_BACKUPS = 5, RETENTION_DAYS = 7\<rparr>
     \<lparr>check_date = 5000, version_error = None,
      select_count = (\<lambda>t. \<lparr>count = None, count_error = Some ''timeout''\<rparr>),
      incident_timestamp = ''I'', age_now = 5000,
      incident_insert = (\<lambda>k. True), audit_insert = True,
      backups = (\<lambda>k. \<lparr>env_timestamp = ''T'', dump_written = None, dump_mtime = 5000,
           dump_thrown = Some (JsError ''pg_dump failed''), sweep_now = 5000,
           psql_thrown = None, db_timestamp = 5000\<rparr>)\<rparr>
     None
     \<lparr>dir = [], system_status = [default_row\<lparr>row_status := st_backup,
             last_backup_time := Some 4000\<rparr>]\<rparr>))"
proof -
  let ?cfg = "\<lparr>MAX_BACKUPS = 5, RETENTION_DAYS = 7\<rparr>"
  let ?env = "\<lparr>check_date = 5000, version_error = None,
      select_count = (\<lambda>t. \<lparr>count = None, count_error = Some ''timeout''\<rparr>),
      incident_timestamp = ''I'', age_now = 5000,
      incident_insert = (\<lambda>k. True), audit_insert = True,
      backups = (\<lambda>k. \<lparr>env_timestamp = ''T'', dump_written = None, dump_mtime = 5000,
           dump_thrown = Some (JsError ''pg_dump failed''), sweep_now = 5000,
           psql_thrown = None, db_timestamp = 5000\<rparr>)\<rparr>"
  let ?w = "\<lparr>dir = [], system_status = [default_row\<lparr>row_status := st_backup,
             last_backup_time := Some 4000\<rparr>]\<rparr>"
  have c: "caught (checkSystem ?cfg ?env None ?w) = None"
    by (simp add: tick_eval)
  have s: "status (snapshot (checkSystem ?cfg ?env None ?w)) = Error"
    by (simp add: tick_status tick_errors table_error_def CRITICAL_TABLES_def)
  from baseline_replaced_unless_caught [of ?cfg ?env None ?w] c s
  show ?thesis by simp
qed

lemma check_backup_null_row:
  assumes "r \<in> set (system_status (world_of t))" and "last_backup_time r = None"
  shows "warnings (state (snd (check_backup cfg env t)))
           = warnings (state t) @ [''No backup history found'']
       \<and> runs (snd (check_backup cfg env t)) = Suc (runs t)"
proof -
  have "select_last_backup (system_status (world_of t)) = Some None"
    using assms by (rule select_last_backup_null)
  then have "check_backup cfg env t
      = createBackup cfg env (push_warning ''No backup history found'' t)"
    by (simp add: check_backup_def)
  then show ?thesis
    by (simp add: createBackup_state createBackup_runs push_warning_def)
qed

text \<open>
  Claim C5: the code at the failing input. The table holds a backup row with a backup time
  and, after it, the audit row of a tick, whose backup time is null. The query of the
  monitor yields the null, although the most recent backup time that is not null is 1000;
  the check of the last backup then reports that there is no backup history and runs a
  backup.
\<close>

theorem select_last_backup_masked:
  "select_last_backup
     [default_row\<lparr>row_status := st_backup, last_known_state := Backup_file ''db_backup_T.sql.gz'',
                  last_backup_time := Some 1000\<rparr>,
      status_record \<lparr>status = Healthy, lastCheck = 2000, tables = Map.empty,
                      lastBackup = Some 1000, warnings = [], errors = []\<rparr>] = Some None
   \<and> latestBackupTime
     [default_row\<lparr>row_status := st_backup, last_known_state := Backup_file ''db_backup_T.sql.gz'',
                  last_backup_time := Some 1000\<rparr>,
      status_record \<lparr>status = Healthy, lastCheck = 2000, tables = Map.empty,
                      lastBackup = Some 1000, warnings = [], errors = []\<rparr>] = Some 1000
   \<and> warnings (state (snd (check_backup \<lparr>MAX_BACKUPS = 5, RETENTION_DAYS = 7\<rparr>
     \<lparr>check_date = 3000, version_error = None,
      select_count = (\<lambda>t. \<lparr>count = Some 50, count_error = None\<rparr>),
      incident_timestamp = ''I'', age_now = 3000,
      incident_insert = (\<lambda>k. True), audit_insert = True,
      backups = (\<lambda>k. \<lparr>env_timestamp = ''T'', dump_written = Some 10, dump_mtime = 3000,
         dump_thrown = None, sweep_now = 3000, psql_thrown = None, db_timestamp = 3000\<rparr>)\<rparr>
     \<lparr>state = \<lparr>status = Healthy, lastCheck = 3000, tables = Map.empty, lastBackup = None,
                warnings = [], errors = []\<rparr>,
      world_of = \<lparr>dir = [], system_status =
        [default_row\<lparr>row_status := st_backup, last_known_state := Backup_file ''db_backup_T.sql.gz'',
                  last_backup_time := Some 1000\<rparr>,
         status_record \<lparr>status = Healthy, lastCheck = 2000, tables = Map.empty,
                      lastBackup = Some 1000, warnings = [], errors = []\<rparr>]\<rparr>,
      runs = 0\<rparr>))) = [''No backup history found'']"
proof -
  let ?audit = "status_record \<lparr>status = Healthy, lastCheck = 2000, tables = Map.empty,
                      lastBackup = Some 1000, warnings = [], errors = []\<rparr>"
  let ?tbl = "[default_row\<lparr>row_status := st_backup,
                  last_known_state := Backup_file ''db_backup_T.sql.gz'',
                  last_backup_time := Some 1000\<rparr>, ?audit]"
  have null: "last_backup_time ?audit = None"
    by (simp add: status_record_def default_row_def)
  have query: "select_last_backup ?tbl = Some None"
    by (rule select_last_backup_null [of ?audit]) (simp_all add: null)
  have spec: "latestBackupTime ?tbl = Some 1000"
    by (simp add: latestBackupTime_def List.map_filter_def default_row_def status_record_def)
  let ?t = "\<lparr>state = \<lparr>status = Healthy, lastCheck = 3000, tables = Map.empty, lastBackup = None,
                warnings = [], errors = []\<rparr>,
      world_of = \<lparr>dir = [], system_status = ?tbl\<rparr>, runs = 0\<rparr>"
  have "?audit \<in> set (system_status (world_of ?t))" by simp
  from check_backup_null_row [OF this null]
  have "warnings (state (snd (check_backup \<lparr>MAX_BACKUPS = 5, RETENTION_DAYS = 7\<rparr>
     \<lparr>check_date = 3000, version_error = None,
      select_count = (\<lambda>t. \<lparr>count = Some 50, count_error = None\<rparr>),
      incident_timestamp = ''I'', age_now = 3000,
      incident_insert = (\<lambda>k. True), audit_insert = True,
      backups = (\<lambda>k. \<lparr>env_timestamp = ''T'', dump_written = Some 10, dump_mtime = 3000,
         dump_thrown = None, sweep_now = 3000, psql_thrown = None, db_timestamp = 3000\<rparr>)\<rparr>
     ?t))) = [''No backup history found'']"
    by simp
  with query spec show ?thesis by simp
qed



section \<open>The rows of a tick and the empty artifact\<close>

lemma backup_run_example:
  "backupDatabase \<lparr>MAX_BACKUPS = 5, RETENTION_DAYS = 7\<rparr>
     \<lparr>env_timestamp = ''T'', dump_written = Some 10, dump_mtime = 5000,
               dump_thrown = None, sweep_now = 5000, psql_thrown = None, db_timestamp = 5000\<rparr>
     \<lparr>dir = [], system_status = []\<rparr>
   = (\<lparr>success = True, path = Some ''db_backup_T.sql.gz'', timestamp = Some ''T'', error = None\<rparr>,
      \<lparr>dir = [\<lparr>name = ''db_backup_T.sql.gz'', time = 5000, size_bytes = 10\<rparr>],
       system_status = [default_row\<lparr>row_status := st_backup,
                              last_known_state := Backup_file ''db_backup_T.sql.gz'',
                              last_backup_time := Some 5000\<rparr>]\<rparr>)"
  by (simp add: backupDatabase_def exec_dump_def write_file_def compressedPath_def existsSync_def
     statSync_size_def cleanOldBackups_def backup_files_def endsWith_def slice_def
     retentionMs_def unlinkSync_def insert_row_def increment_error_count_def Let_def)

lemma backupDatabase_dump_thrown:
  "dump_thrown env = Some e \<Longrightarrow>
   backupDatabase cfg env w = (backup_failed e, w\<lparr>dir := exec_dump env (dir w)\<rparr>)"
  by (simp add: backupDatabase_def Let_def)

lemmas tick_steps =
  checkSystem_def CRITICAL_TABLES_def check_table_def initial_state_def Let_def
  data_loss_def threshold_def push_warning_def push_error_def handleDataLoss_def createBackup_def
  backup_failed_def message_or_def exec_dump_def
  insert_status_def insert_row_def increment_error_count_def
  default_row_def check_backup_def select_last_backup_def order_last_backup_time_desc_def
  single_def updateSystemStatus_def status_record_def COALESCE_def catch_block_def

text \<open>
  Claim C2, as stated, fails in both directions. A tick that detects a data loss in one
  table, with a backup that succeeds, appends three rows: the row of the backup, the
  incident row of \<^verbatim>\<open>handleDataLoss\<close> and the audit row. A tick on which the database cannot be
  reached, so that the insert of \<^verbatim>\<open>updateSystemStatus\<close> fails as well, appends no row: the
  failure of the insert is only logged.
\<close>

theorem data_loss_tick_rows_counterexample:
  "map row_status (system_status (final_world (checkSystem \<lparr>MAX_BACKUPS = 5, RETENTION_DAYS = 7\<rparr>
     \<lparr>check_date = 5000, version_error = None,
      select_count = (\<lambda>t. \<lparr>count = Some 50, count_error = None\<rparr>),
      incident_timestamp = ''I'', age_now = 5000,
      incident_insert = (\<lambda>k. True), audit_insert = True,
      backups = (\<lambda>k. if k = 0
         then \<lparr>env_timestamp = ''T'', dump_written = Some 10, dump_mtime = 5000,
               dump_thrown = None, sweep_now = 5000, psql_thrown = None, db_timestamp = 5000\<rparr>
         else \<lparr>env_timestamp = ''U'', dump_written = None, dump_mtime = 5000,
               dump_thrown = Some (JsError ''pg_dump failed''), sweep_now = 5000,
               psql_thrown = None, db_timestamp = 5000\<rparr>)\<rparr>
     (Some \<lparr>status = Healthy, lastCheck = 0, tables = [''user_profiles'' \<mapsto> 100],
            lastBackup = None, warnings = [], errors = []\<rparr>)
     \<lparr>dir = [], system_status = []\<rparr>)))
   = [st_backup, st_error, st_error]
   \<and> system_status (final_world (checkSystem \<lparr>MAX_BACKUPS = 5, RETENTION_DAYS = 7\<rparr>
     \<lparr>check_date = 5000, version_error = Some (JsError ''connection refused''),
      select_count = (\<lambda>t. \<lparr>count = None, count_error = Some ''connection refused''\<rparr>),
      incident_timestamp = ''I'', age_now = 5000,
      incident_insert = (\<lambda>k. False), audit_insert = False,
      backups = (\<lambda>k. \<lparr>env_timestamp = ''U'', dump_written = None, dump_mtime = 5000,
               dump_thrown = Some (JsError ''pg_dump failed''), sweep_now = 5000,
               psql_thrown = None, db_timestamp = 5000\<rparr>)\<rparr>
     (Some \<lparr>status = Healthy, lastCheck = 0, tables = [''user_profiles'' \<mapsto> 100],
            lastBackup = None, warnings = [], errors = []\<rparr>)
     \<lparr>dir = [], system_status = []\<rparr>)) = []"
  by (simp add: tick_steps backup_run_example backupDatabase_dump_thrown)

text \<open>
  Claim C2, amended. Every tick, whatever its outcome, calls \<^verbatim>\<open>updateSystemStatus\<close> once, at
  its end, with its snapshot. When that insert reaches the table, the last row that the tick
  appends is its audit row, with status \<^verbatim>\<open>initialized\<close> when the status of the snapshot is
  \<^verbatim>\<open>healthy\<close> and \<^verbatim>\<open>error\<close> otherwise, and with the snapshot as its payload; when the insert
  fails, which the source only logs, the tick appends no audit row. The rows appended
  before it in the same tick are rows of backups that succeeded and incident rows of
  \<^verbatim>\<open>handleDataLoss\<close>, at most two for each run of the backup; a tick that runs no backup
  appends the audit row only, or nothing.
\<close>

theorem tick_audit_rows:
  "\<exists>bs. system_status (final_world (checkSystem cfg env known w))
          = system_status w @ bs
              @ (if audit_insert env
                 then [increment_error_count None
                         (status_record (snapshot (checkSystem cfg env known w)))]
                 else [])
      \<and> (\<forall>r \<in> set bs. is_backup_row r \<or> is_incident_row r)
      \<and> length bs \<le> 2 * backup_runs (checkSystem cfg env known w)
      \<and> row_status (increment_error_count None (status_record (snapshot (checkSystem cfg env known w))))
          = (if status (snapshot (checkSystem cfg env known w)) = Healthy
             then st_initialized else st_error)
      \<and> last_known_state
            (increment_error_count None (status_record (snapshot (checkSystem cfg env known w))))
          = State (snapshot (checkSystem cfg env known w))"
  using tick_rows [of cfg env known w] by (simp add: audit_row_status)

theorem tick_audit_rows_witness:
  "row_status (last (system_status (final_world (checkSystem \<lparr>MAX_BACKUPS = 5, RETENTION_DAYS = 7\<rparr>
     \<lparr>check_date = 5000, version_error = None,
      select_count = (\<lambda>t. \<lparr>count = Some 50, count_error = None\<rparr>),
      incident_timestamp = ''I'', age_now = 5000,
      incident_insert = (\<lambda>k. True), audit_insert = True,
      backups = (\<lambda>k. if k = 0
         then \<lparr>env_timestamp = ''T'', dump_written = Some 10, dump_mtime = 5000,
               dump_thrown = None, sweep_now = 5000, psql_thrown = None, db_timestamp = 5000\<rparr>
         else \<lparr>env_timestamp = ''U'', dump_written = None, dump_mtime = 5000,
               dump_thrown = Some (JsError ''pg_dump failed''), sweep_now = 5000,
               psql_thrown = None, db_timestamp = 5000\<rparr>)\<rparr>
     (Some \<lparr>status = Healthy, lastCheck = 0, tables = [''user_profiles'' \<mapsto> 100],
            lastBackup = None, warnings = [], errors = []\<rparr>)
     \<lparr>dir = [], system_status = []\<rparr>)))) = st_error
   \<and> status (snapshot (checkSystem \<lparr>MAX_BACKUPS = 5, RETENTION_DAYS = 7\<rparr>
     \<lparr>check_date = 5000, version_error = None,
      select_count = (\<lambda>t. \<lparr>count = Some 50, count_error = None\<rparr>),
      incident_timestamp = ''I'', age_now = 5000,
      incident_insert = (\<lambda>k. True), audit_insert = True,
      backups = (\<lambda>k. if k = 0
         then \<lparr>env_timestamp = ''T'', dump_written = Some 10, dump_mtime = 5000,
               dump_thrown = None, sweep_now = 5000, psql_thrown = None, db_timestamp = 5000\<rparr>
         else \<lparr>env_timestamp = ''U'', dump_written = None, dump_mtime = 5000,
               dump_thrown = Some (JsError ''pg_dump failed''), sweep_now = 5000,
               psql_thrown = None, db_timestamp = 5000\<rparr>)\<rparr>
     (Some \<lparr>status = Healthy, lastCheck = 0, tables = [''user_profiles'' \<mapsto> 100],
            lastBackup = None, warnings = [], errors = []\<rparr>)
     \<lparr>dir = [], system_status = []\<rparr>)) = Error"
proof -
  let ?cfg = "\<lparr>MAX_BACKUPS = 5, RETENTION_DAYS = 7\<rparr>"
  let ?env = "\<lparr>check_date = 5000, version_error = None,
      select_count = (\<lambda>t. \<lparr>count = Some 50, count_error = None\<rparr>),
      incident_timestamp = ''I'', age_now = 5000,
      incident_insert = (\<lambda>k. True), audit_insert = True,
      backups = (\<lambda>k. if k = 0
         then \<lparr>env_timestamp = ''T'', dump_written = Some 10, dump_mtime = 5000,
               dump_thrown = None, sweep_now = 5000, psql_thrown = None, db_timestamp = 5000\<rparr>
         else \<lparr>env_timestamp = ''U'', dump_written = None, dump_mtime = 5000,
               dump_thrown = Some (JsError ''pg_dump failed''), sweep_now = 5000,
               psql_thrown = None, db_timestamp = 5000\<rparr>)\<rparr>"
  let ?known = "Some \<lparr>status = Healthy, lastCheck = 0, tables = [''user_profiles'' \<mapsto> 100],
            lastBackup = None, warnings = [], errors = []\<rparr>"
  let ?w = "\<lparr>dir = [], system_status = []\<rparr>"
  have s: "status (snapshot (checkSystem ?cfg ?env ?known ?w)) = Error"
    by (simp add: tick_steps backup_run_example backupDatabase_dump_thrown)
  from tick_audit_rows [of ?cfg ?env ?known ?w]
  obtain bs where "system_status (final_world (checkSystem ?cfg ?env ?known ?w))
      = bs @ [increment_error_count None
                (status_record (snapshot (checkSystem ?cfg ?env ?known ?w)))]"
    and "row_status (increment_error_count None
                       (status_record (snapshot (checkSystem ?cfg ?env ?known ?w))))
          = (if status (snapshot (checkSystem ?cfg ?env ?known ?w)) = Healthy
             then st_initialized else st_error)"
    by auto
  then have "row_status (last (system_status (final_world (checkSystem ?cfg ?env ?known ?w))))
      = st_error"
    using s by simp
  with s show ?thesis by simp
qed

lemma empty_backup_example:
  "backupDatabase \<lparr>MAX_BACKUPS = 5, RETENTION_DAYS = 7\<rparr>
     \<lparr>env_timestamp = ''T'', dump_written = Some 0, dump_mtime = 5000,
      dump_thrown = None, sweep_now = 5000, psql_thrown = None, db_timestamp = 5000\<rparr>
     \<lparr>dir = [], system_status = []\<rparr>
   = (\<lparr>success = False, path = None, timestamp = None,
       error = Some ''Backup file is empty or was not created''\<rparr>,
      \<lparr>dir = [\<lparr>name = ''db_backup_T.sql.gz'', time = 5000, size_bytes = 0\<rparr>],
       system_status = []\<rparr>)"
  by (simp add: backupDatabase_def exec_dump_def write_file_def compressedPath_def existsSync_def
     statSync_size_def backup_failed_def message_or_def Let_def)

text \<open>
  Claim C8, as stated, fails in one part: when the dump leaves a file of size 0, the run
  fails, but the empty file stays in the backup directory, where the next sweep counts it as
  an artifact.
\<close>

theorem empty_artifact_retained_counterexample:
  "\<not> success (fst (backupDatabase \<lparr>MAX_BACKUPS = 5, RETENTION_DAYS = 7\<rparr>
     \<lparr>env_timestamp = ''T'', dump_written = Some 0, dump_mtime = 5000,
      dump_thrown = None, sweep_now = 5000, psql_thrown = None, db_timestamp = 5000\<rparr>
     \<lparr>dir = [], system_status = []\<rparr>))
   \<and> artifacts (dir (snd (backupDatabase \<lparr>MAX_BACKUPS = 5, RETENTION_DAYS = 7\<rparr>
     \<lparr>env_timestamp = ''T'', dump_written = Some 0, dump_mtime = 5000,
      dump_thrown = None, sweep_now = 5000, psql_thrown = None, db_timestamp = 5000\<rparr>
     \<lparr>dir = [], system_status = []\<rparr>)))
     = [\<lparr>name = ''db_backup_T.sql.gz'', time = 5000, size_bytes = 0\<rparr>]"
  by (simp add: empty_backup_example artifacts_def endsWith_def)

lemma tick_backup_error_row:
  assumes "0 < backup_runs (checkSystem cfg env known w)"
  shows "row_status (status_record (snapshot (checkSystem cfg env known w))) = st_error"
    and "audit_insert env \<Longrightarrow>
         row_status (last (system_status (final_world (checkSystem cfg env known w)))) = st_error"
proof -
  from assms have "warnings (snapshot (checkSystem cfg env known w)) \<noteq> []"
    by (simp add: tick_runs)
  then have unhealthy: "status (snapshot (checkSystem cfg env known w)) \<noteq> Healthy"
    by (simp add: tick_status)
  then show "row_status (status_record (snapshot (checkSystem cfg env known w))) = st_error"
    by (simp add: status_record_def)
  assume "audit_insert env"
  with tick_rows [of cfg env known w]
  have "last (system_status (final_world (checkSystem cfg env known w)))
      = increment_error_count None (status_record (snapshot (checkSystem cfg env known w)))"
    by auto
  with unhealthy
  show "row_status (last (system_status (final_world (checkSystem cfg env known w)))) = st_error"
    by (simp add: audit_row_status)
qed

text \<open>
  Claim C8, amended. When the artifact is absent or has size 0 after the shell command,
  \<^verbatim>\<open>backupDatabase\<close> fails: it returns \<^verbatim>\<open>success: false\<close> and no path, with the error "Backup
  file is empty or was not created" when the command itself returned; it runs no sweep and
  writes no backup row, so the run is not recorded as a backup; the directory is left as the
  command left it (the executor does not remove an empty file). The audit row that a tick
  in which a backup ran hands to \<^verbatim>\<open>updateSystemStatus\<close> has status \<^verbatim>\<open>error\<close>; it is the last
  row of the table after the tick when its insert reaches the table.
\<close>

theorem empty_artifact_backup_fails:
  assumes "\<not> existsSync (compressedPath env) (exec_dump env (dir w))
         \<or> statSync_size (compressedPath env) (exec_dump env (dir w)) = 0"
  shows "\<not> success (fst (backupDatabase cfg env w))
       \<and> path (fst (backupDatabase cfg env w)) = None
       \<and> error (fst (backupDatabase cfg env w))
           = Some (case dump_thrown env of
                     None \<Rightarrow> ''Backup file is empty or was not created''
                   | Some e \<Rightarrow> message_or ''Unknown error during backup'' e)
       \<and> system_status (snd (backupDatabase cfg env w)) = system_status w
       \<and> dir (snd (backupDatabase cfg env w)) = exec_dump env (dir w)
       \<and> (backups tenv k = env \<and> k < backup_runs (checkSystem cfg tenv known tw) \<longrightarrow>
            row_status (status_record (snapshot (checkSystem cfg tenv known tw))) = st_error
            \<and> (audit_insert tenv \<longrightarrow>
                 row_status (last (system_status (final_world (checkSystem cfg tenv known tw))))
                   = st_error))"
proof -
  have run: "backupDatabase cfg env w =
     (backup_failed (case dump_thrown env of
                       None \<Rightarrow> JsError ''Backup file is empty or was not created''
                     | Some e \<Rightarrow> e),
      w\<lparr>dir := exec_dump env (dir w)\<rparr>)"
  proof (cases "dump_thrown env")
    case None
    then show ?thesis using assms by (simp add: backupDatabase_empty)
  next
    case (Some e)
    then show ?thesis by (simp add: backupDatabase_dump_thrown)
  qed
  have "\<not> success (fst (backupDatabase cfg env w))"
    and "path (fst (backupDatabase cfg env w)) = None"
    and "error (fst (backupDatabase cfg env w))
           = Some (case dump_thrown env of
                     None \<Rightarrow> ''Backup file is empty or was not created''
                   | Some e \<Rightarrow> message_or ''Unknown error during backup'' e)"
    and "system_status (snd (backupDatabase cfg env w)) = system_status w"
    and "dir (snd (backupDatabase cfg env w)) = exec_dump env (dir w)"
    by (simp_all add: run backup_failed_def message_or_def split: option.splits)
  moreover have "backups tenv k = env \<and> k < backup_runs (checkSystem cfg tenv known tw) \<longrightarrow>
            row_status (status_record (snapshot (checkSystem cfg tenv known tw))) = st_error
            \<and> (audit_insert tenv \<longrightarrow>
                 row_status (last (system_status (final_world (checkSystem cfg tenv known tw))))
                   = st_error)"
    using tick_backup_error_row [of cfg tenv known tw] by auto
  ultimately show ?thesis by simp
qed

theorem empty_artifact_backup_fails_witness:
  "statSync_size (compressedPath \<lparr>env_timestamp = ''T'', dump_written = Some 0, dump_mtime = 5000,
      dump_thrown = None, sweep_now = 5000, psql_thrown = None, db_timestamp = 5000\<rparr>)
     (exec_dump \<lparr>env_timestamp = ''T'', dump_written = Some 0, dump_mtime = 5000,
      dump_thrown = None, sweep_now = 5000, psql_thrown = None, db_timestamp = 5000\<rparr> []) = 0
   \<and> error (fst (backupDatabase \<lparr>MAX_BACKUPS = 5, RETENTION_DAYS = 7\<rparr>
     \<lparr>env_timestamp = ''T'', dump_written = Some 0, dump_mtime = 5000,
      dump_thrown = None, sweep_now = 5000, psql_thrown = None, db_timestamp = 5000\<rparr>
     \<lparr>dir = [], system_status = []\<rparr>)) = Some ''Backup file is empty or was not created''
   \<and> 0 < backup_runs (checkSystem \<lparr>MAX_BACKUPS = 5, RETENTION_DAYS = 7\<rparr>
     \<lparr>check_date = 5000, version_error = None,
      select_count = (\<lambda>t. \<lparr>count = Some 50, count_error = None\<rparr>),
      incident_timestamp = ''I'', age_now = 5000,
      incident_insert = (\<lambda>k. True), audit_insert = True,
      backups = (\<lambda>k. \<lparr>env_timestamp = ''T'', dump_written = Some 0, dump_mtime = 5000,
         dump_thrown = None, sweep_now = 5000, psql_thrown = None, db_timestamp = 5000\<rparr>)\<rparr>
     None \<lparr>dir = [], system_status = []\<rparr>)
   \<and> row_status (last (system_status (final_world (checkSystem \<lparr>MAX_BACKUPS = 5, RETENTION_DAYS = 7\<rparr>
     \<lparr>check_date = 5000, version_error = None,
      select_count = (\<lambda>t. \<lparr>count = Some 50, count_error = None\<rparr>),
      incident_timestamp = ''I'', age_now = 5000,
      incident_insert = (\<lambda>k. True), audit_insert = True,
      backups = (\<lambda>k. \<lparr>env_timestamp = ''T'', dump_written = Some 0, dump_mtime = 5000,
         dump_thrown = None, sweep_now = 5000, psql_thrown = None, db_timestamp = 5000\<rparr>)\<rparr>
     None \<lparr>dir = [], system_status = []\<rparr>)))) = st_error"
proof -
  let ?cfg = "\<lparr>MAX_BACKUPS = 5, RETENTION_DAYS = 7\<rparr>"
  let ?env = "\<lparr>env_timestamp = ''T'', dump_written = Some 0, dump_mtime = 5000,
      dump_thrown = None, sweep_now = 5000, psql_thrown = None, db_timestamp = 5000\<rparr>"
  let ?w = "\<lparr>dir = [], system_status = []\<rparr>"
  let ?tenv = "\<lparr>check_date = 5000, version_error = None,
      select_count = (\<lambda>t. \<lparr>count = Some 50, count_error = None\<rparr>),
      incident_timestamp = ''I'', age_now = 5000,
      incident_insert = (\<lambda>k. True), audit_insert = True,
      backups = (\<lambda>k. ?env)\<rparr>"
  have thrown: "dump_thrown ?env = None" by simp
  have empty: "statSync_size (compressedPath ?env) (exec_dump ?env (dir ?w)) = 0"
    by (simp add: exec_dump_def write_file_def compressedPath_def statSync_size_def)
  then have hyp: "\<not> existsSync (compressedPath ?env) (exec_dump ?env (dir ?w))
         \<or> statSync_size (compressedPath ?env) (exec_dump ?env (dir ?w)) = 0" by simp
  have ran: "0 < backup_runs (checkSystem ?cfg ?tenv None ?w)"
    by (simp add: tick_steps empty_backup_example)
  have env: "backups ?tenv 0 = ?env" by simp
  from empty_artifact_backup_fails [OF hyp, of ?cfg ?tenv 0 None ?w] ran env empty thrown
  show ?thesis by simp
qed


section \<open>The data loss warning\<close>

lemma data_loss_pos: "data_loss p c \<Longrightarrow> p \<noteq> 0"
  by (auto simp: data_loss_def threshold_def)

lemma loss_warning_table:
  assumes "t \<in> set CRITICAL_TABLES" and "t' \<in> set CRITICAL_TABLES"
    and "loss_warning t p c = loss_warning t' p' c'"
  shows "t = t'"
  using assms by (auto simp: CRITICAL_TABLES_def loss_warning_def)

lemma loss_warning_not_backup_warning:
  "loss_warning t p c \<noteq> ''No recent backup found (>24 hours)''"
  "loss_warning t p c \<noteq> ''No backup history found''"
  by (simp_all add: loss_warning_def)

lemma table_warning_cases:
  "table_warning known env t = [] \<or> (\<exists>p c. table_warning known env t = [loss_warning t p c])"
  by (auto simp: table_warning_def split: option.splits)

lemma other_table_warning:
  assumes "t \<in> set CRITICAL_TABLES" and "t' \<in> set CRITICAL_TABLES" and "t' \<noteq> t"
  shows "count_list (table_warning known env t') (loss_warning t p c) = 0"
proof -
  from table_warning_cases [of known env t']
  show ?thesis
  proof
    assume "table_warning known env t' = []"
    then show ?thesis by simp
  next
    assume "\<exists>p' c'. table_warning known env t' = [loss_warning t' p' c']"
    then obtain p' c' where tw: "table_warning known env t' = [loss_warning t' p' c']" by blast
    have "loss_warning t' p' c' \<noteq> loss_warning t p c"
      using loss_warning_table [OF assms(2) assms(1)] assms(3) by blast
    then show ?thesis by (simp add: tw)
  qed
qed

lemma count_loss_warnings:
  assumes "t \<in> set CRITICAL_TABLES" and "table_warning known env t = [loss_warning t p c]"
  shows "distinct ts \<Longrightarrow> set ts \<subseteq> set CRITICAL_TABLES \<Longrightarrow>
         count_list (concat (map (table_warning known env) ts)) (loss_warning t p c)
           = (if t \<in> set ts then 1 else 0)"
proof (induction ts)
  case Nil
  then show ?case by simp
next
  case (Cons a ts)
  show ?case
  proof (cases "a = t")
    case True
    then have "t \<notin> set ts" using Cons.prems(1) by simp
    then show ?thesis using Cons True assms(2) by simp
  next
    case False
    then have "count_list (table_warning known env a) (loss_warning t p c) = 0"
      using other_table_warning [OF assms(1), of a] Cons.prems(2) by simp
    then show ?thesis using Cons False by simp
  qed
qed

text \<open>
  Claim C1, as stated, fails: a table is in the last known state with 100 rows and in the
  snapshot of the tick with 0 rows, and no warning is pushed; the status is \<^verbatim>\<open>healthy\<close>. The
  count of the reply was null: the snapshot stores \<^verbatim>\<open>count || 0\<close>, and the guard
  \<^verbatim>\<open>count !== null\<close> skips the comparison.
\<close>

theorem null_count_no_warning_counterexample:
  "tables (snapshot (checkSystem \<lparr>MAX_BACKUPS = 5, RETENTION_DAYS = 7\<rparr>
     \<lparr>check_date = 5000, version_error = None,
      select_count = (\<lambda>t. \<lparr>count = None, count_error = None\<rparr>),
      incident_timestamp = ''I'', age_now = 5000,
      incident_insert = (\<lambda>k. True), audit_insert = True,
      backups = (\<lambda>k. \<lparr>env_timestamp = ''T'', dump_written = None, dump_mtime = 5000,
           dump_thrown = Some (JsError ''pg_dump failed''), sweep_now = 5000,
           psql_thrown = None, db_timestamp = 5000\<rparr>)\<rparr>
     (Some \<lparr>status = Healthy, lastCheck = 0, tables = [''user_profiles'' \<mapsto> 100],
            lastBackup = None, warnings = [], errors = []\<rparr>)
     \<lparr>dir = [], system_status = [default_row\<lparr>row_status := st_backup,
             last_backup_time := Some 4000\<rparr>]\<rparr>)) ''user_profiles'' = Some 0
   \<and> data_loss 100 0
   \<and> warnings (snapshot (checkSystem \<lparr>MAX_BACKUPS = 5, RETENTION_DAYS = 7\<rparr>
     \<lparr>check_date = 5000, version_error = None,
      select_count = (\<lambda>t. \<lparr>count = None, count_error = None\<rparr>),
      incident_timestamp = ''I'', age_now = 5000,
      incident_insert = (\<lambda>k. True), audit_insert = True,
      backups = (\<lambda>k. \<lparr>env_timestamp = ''T'', dump_written = None, dump_mtime = 5000,
           dump_thrown = Some (JsError ''pg_dump failed''), sweep_now = 5000,
           psql_thrown = None, db_timestamp = 5000\<rparr>)\<rparr>
     (Some \<lparr>status = Healthy, lastCheck = 0, tables = [''user_profiles'' \<mapsto> 100],
            lastBackup = None, warnings = [], errors = []\<rparr>)
     \<lparr>dir = [], system_status = [default_row\<lparr>row_status := st_backup,
             last_backup_time := Some 4000\<rparr>]\<rparr>)) = []
   \<and> status (snapshot (checkSystem \<lparr>MAX_BACKUPS = 5, RETENTION_DAYS = 7\<rparr>
     \<lparr>check_date = 5000, version_error = None,
      select_count = (\<lambda>t. \<lparr>count = None, count_error = None\<rparr>),
      incident_timestamp = ''I'', age_now = 5000,
      incident_insert = (\<lambda>k. True), audit_insert = True,
      backups = (\<lambda>k. \<lparr>env_timestamp = ''T'', dump_written = None, dump_mtime = 5000,
           dump_thrown = Some (JsError ''pg_dump failed''), sweep_now = 5000,
           psql_thrown = None, db_timestamp = 5000\<rparr>)\<rparr>
     (Some \<lparr>status = Healthy, lastCheck = 0, tables = [''user_profiles'' \<mapsto> 100],
            lastBackup = None, warnings = [], errors = []\<rparr>)
     \<lparr>dir = [], system_status = [default_row\<lparr>row_status := st_backup,
             last_backup_time := Some 4000\<rparr>]\<rparr>)) = Healthy"
  by (simp add: tick_steps)

text \<open>
  Claim C1, amended. On a tick whose \<^verbatim>\<open>version\<close> call succeeds, for every critical table
  whose count is answered without error by a count \<open>c\<close> that is not null, and for which the
  last known state holds the count \<open>previousCount\<close>: if \<open>c < previousCount - previousCount * 0.1\<close>
  then the warnings of the snapshot hold the string
  "Significant data loss detected in <table>: Previous=<previousCount>, Current=<c>" exactly
  once, the status of the snapshot is not \<^verbatim>\<open>healthy\<close>, and the snapshot holds \<open>c\<close> for the table.
\<close>

theorem data_loss_warning_emitted:
  assumes "version_error env = None"
    and "table \<in> set CRITICAL_TABLES"
    and "known = Some prev" and "tables prev table = Some previousCount"
    and "count_error (select_count env table) = None"
    and "count (select_count env table) = Some c"
    and "data_loss previousCount c"
  shows "count_list (warnings (snapshot (checkSystem cfg env known w)))
            (loss_warning table previousCount c) = 1
       \<and> status (snapshot (checkSystem cfg env known w)) \<noteq> Healthy
       \<and> tables (snapshot (checkSystem cfg env known w)) table = Some c"
proof -
  let ?m = "loss_warning table previousCount c"
  have tw: "table_warning known env table = [?m]"
    using assms(3-7) data_loss_pos [OF assms(7)] by (simp add: table_warning_def)
  have "distinct CRITICAL_TABLES" by (simp add: CRITICAL_TABLES_def)
  then have loop: "count_list (concat (map (table_warning known env) CRITICAL_TABLES)) ?m = 1"
    using count_loss_warnings [OF assms(2) tw, of CRITICAL_TABLES] assms(2) by simp
  from tick_warnings [of cfg env known w] assms(1)
  obtain ws where ws: "ws = [] \<or> ws = [''No recent backup found (>24 hours)'']
        \<or> ws = [''No backup history found'']"
    and all: "warnings (snapshot (checkSystem cfg env known w))
        = concat (map (table_warning known env) CRITICAL_TABLES) @ ws"
    by auto
  from ws have "count_list ws ?m = 0"
    using loss_warning_not_backup_warning [of table previousCount c] by auto
  with loop all have one: "count_list (warnings (snapshot (checkSystem cfg env known w))) ?m = 1"
    by simp
  then have "warnings (snapshot (checkSystem cfg env known w)) \<noteq> []" by auto
  then have st: "status (snapshot (checkSystem cfg env known w)) \<noteq> Healthy"
    by (simp add: tick_status)
  have "tables (snapshot (checkSystem cfg env known w)) table = Some c"
    using tick_tables [OF assms(1) assms(2) assms(5), of cfg known w] assms(6)
    by (simp add: COALESCE_def)
  with one st show ?thesis by simp
qed

theorem data_loss_warning_emitted_witness:
  "''user_profiles'' \<in> set CRITICAL_TABLES
   \<and> data_loss 100 85
   \<and> count_list (warnings (snapshot (checkSystem \<lparr>MAX_BACKUPS = 5, RETENTION_DAYS = 7\<rparr>
     \<lparr>check_date = 5000, version_error = None,
      select_count = (\<lambda>t. \<lparr>count = Some 85, count_error = None\<rparr>),
      incident_timestamp = ''I'', age_now = 5000,
      incident_insert = (\<lambda>k. True), audit_insert = True,
      backups = (\<lambda>k. \<lparr>env_timestamp = ''T'', dump_written = None, dump_mtime = 5000,
           dump_thrown = Some (JsError ''pg_dump failed''), sweep_now = 5000,
           psql_thrown = None, db_timestamp = 5000\<rparr>)\<rparr>
     (Some \<lparr>status = Healthy, lastCheck = 0, tables = [''user_profiles'' \<mapsto> 100],
            lastBackup = None, warnings = [], errors = []\<rparr>)
     \<lparr>dir = [], system_status = []\<rparr>)))
       ''Significant data loss detected in user_profiles: Previous=100, Current=85'' = 1
   \<and> status (snapshot (checkSystem \<lparr>MAX_BACKUPS = 5, RETENTION_DAYS = 7\<rparr>
     \<lparr>check_date = 5000, version_error = None,
      select_count = (\<lambda>t. \<lparr>count = Some 85, count_error = None\<rparr>),
      incident_timestamp = ''I'', age_now = 5000,
      incident_insert = (\<lambda>k. True), audit_insert = True,
      backups = (\<lambda>k. \<lparr>env_timestamp = ''T'', dump_written = None, dump_mtime = 5000,
           dump_thrown = Some (JsError ''pg_dump failed''), sweep_now = 5000,
           psql_thrown = None, db_timestamp = 5000\<rparr>)\<rparr>
     (Some \<lparr>status = Healthy, lastCheck = 0, tables = [''user_profiles'' \<mapsto> 100],
            lastBackup = None, warnings = [], errors = []\<rparr>)
     \<lparr>dir = [], system_status = []\<rparr>)) \<noteq> Healthy"
proof -
  let ?cfg = "\<lparr>MAX_BACKUPS = 5, RETENTION_DAYS = 7\<rparr>"
  let ?env = "\<lparr>check_date = 5000, version_error = None,
      select_count = (\<lambda>t. \<lparr>count = Some 85, count_error = None\<rparr>),
      incident_timestamp = ''I'', age_now = 5000,
      incident_insert = (\<lambda>k. True), audit_insert = True,
      backups = (\<lambda>k. \<lparr>env_timestamp = ''T'', dump_written = None, dump_mtime = 5000,
           dump_thrown = Some (JsError ''pg_dump failed''), sweep_now = 5000,
           psql_thrown = None, db_timestamp = 5000\<rparr>)\<rparr>"
  let ?prev = "\<lparr>status = Healthy, lastCheck = 0, tables = [''user_profiles'' \<mapsto> 100],
            lastBackup = None, warnings = [], errors = []\<rparr>"
  let ?w = "\<lparr>dir = [], system_status = []\<rparr>"
  have h1: "version_error ?env = None" by simp
  have h2: "''user_profiles'' \<in> set CRITICAL_TABLES" by (simp add: CRITICAL_TABLES_def)
  have h3: "Some ?prev = Some ?prev" by simp
  have h4: "tables ?prev ''user_profiles'' = Some 100" by simp
  have h5: "count_error (select_count ?env ''user_profiles'') = None" by simp
  have h6: "count (select_count ?env ''user_profiles'') = Some 85" by simp
  have h7: "data_loss 100 85" by (simp add: data_loss_def threshold_def)
  have m: "loss_warning ''user_profiles'' 100 85
      = ''Significant data loss detected in user_profiles: Previous=100, Current=85''"
    by (simp add: loss_warning_def show_nat.simps [of 100] show_nat.simps [of 10]
        show_nat.simps [of "Suc 0"] show_nat.simps [of 85] show_nat.simps [of 8])
  from data_loss_warning_emitted [OF h1 h2 h3 h4 h5 h6 h7, of ?cfg ?w] h2 h7
  show ?thesis by (simp add: m)
qed

end
